theory Spec2Isabelle
  imports
    Complex_Main
    "HOL-Library.Word"
    "HOL-Library.AList"
    "HOL-Library.Char_ord"
    "HOL-Library.List_Lexorder"
    "HOL-Library.Multiset"
begin

section \<open>EVPN bridge: the resource lifecycle manager\<close>

text \<open>
  A shallow embedding of the gRPC handlers of package \<open>evpn\<close>: the VRF handlers
  (\<open>CreateVrf\<close>, \<open>DeleteVrf\<close>, \<open>UpdateVrf\<close>, \<open>GetVrf\<close>, \<open>ListVrfs\<close>), the
  logical-bridge handlers of \<open>pkg/evpn/bridge.go\<close> and
  \<open>validateCreateBridgePortRequest\<close>.

  Conventions of the embedding.
  \<^item> A handler \<open>func (s *Server) Op(ctx, in) (*T, error)\<close> becomes a function from the
    request and the server state to a result \<open>err + T\<close> (\<open>Inl\<close> the error) and the
    server state after the call.
  \<^item> A Go \<open>map[string]*T\<close> of resources is an association list with \<open>map_of\<close> as
    lookup, \<open>AList.update\<close> as assignment and \<open>AList.delete\<close> as \<open>delete\<close>; the order of
    the list stands for the (unspecified) iteration order of the Go map.
  \<^item> The collaborators whose code is not part of the two source files (request
    validators, the netlink and FRR adapters, \<open>extractPagination\<close>) are fields of a
    record \<open>Deps\<close>: every theorem holds for all of them. The adapters act on a backend
    state \<open>'w\<close>; every adapter call is also appended to the log \<open>Calls\<close>.
  \<^item> Random draws (\<open>resourceid.NewSystemGenerated\<close>, \<open>generateRandMAC\<close>,
    \<open>uuid.New\<close>) are arguments of the handler that makes them.
  \<^item> \<open>protoClone\<close> is the identity on values; \<open>log.Printf\<close> and \<open>fmt.Printf\<close> are not
    modelled.
  \<^item> The messages \<open>in.Vrf\<close>, \<open>in.Vrf.Spec\<close> (and their bridge counterparts) are
    required fields of the protocol; the model has them present, as they are once
    the required-field validation has passed.
\<close>

subsection \<open>Errors\<close>

datatype code = InvalidArgument | NotFound

datatype err =
    Errorf code string  \<comment> \<open>\<open>status.Errorf(code, msg)\<close>\<close>
  | Failure string      \<comment> \<open>any other error value (adapter, library)\<close>
  | Panic string        \<comment> \<open>a Go run-time panic\<close>

subsection \<open>Strings\<close>

text \<open>\<open>%d\<close> of \<open>fmt.Sprintf\<close> on a non-negative integer.\<close>

fun fmt_d :: "nat \<Rightarrow> string" where
  "fmt_d n =
     (if n < 10 then [char_of (48 + n)]
      else fmt_d (n div 10) @ [char_of (48 + n mod 10)])"

declare fmt_d.simps [simp del]

text \<open>
  \<open>path.Base\<close> of the Go standard library: the last element of a slash-separated
  path, after removing trailing slashes; \<open>"."\<close> for the empty path and \<open>"/"\<close> for a
  path of slashes only.
\<close>

definition path_Base :: "string \<Rightarrow> string" where
  "path_Base p =
     (if p = [] then ''.''
      else
        let q = rev (dropWhile (\<lambda>c. c = CHR ''/'') (rev p));
            r = rev (takeWhile (\<lambda>c. c \<noteq> CHR ''/'') (rev q))
        in if r = [] then ''/'' else r)"

text \<open>
  Modelled from the spec: \<open>resourceIDToFullName\<close> is not in the source files; the
  spec gives the canonical resource path as \<open>"<collection>/<id>"\<close>.
\<close>

definition resourceIDToFullName :: "string \<Rightarrow> string \<Rightarrow> string" where
  "resourceIDToFullName container resourceID = container @ ''/'' @ resourceID"

subsection \<open>Messages\<close>

type_synonym u32 = "32 word"
type_synonym bytes = "8 word list"

record VrfSpec =
  Vni :: "u32 option"

record VrfStatus =
  LocalAs :: u32
  RoutingTable :: u32
  Rmac :: bytes

record Vrf =
  Name :: string
  Spec :: VrfSpec
  Status :: "VrfStatus option"

record CreateVrfRequest =
  VrfId :: string
  Vrf :: Vrf

record DeleteVrfRequest =
  DVR_Name :: string
  DVR_AllowMissing :: bool

record UpdateVrfRequest =
  UVR_Vrf :: Vrf

record GetVrfRequest =
  GVR_Name :: string

record ListVrfsRequest =
  LVR_PageSize :: int
  LVR_PageToken :: string

record ListVrfsResponse =
  Vrfs_out :: "Vrf list"
  LVR_NextPageToken :: string

datatype LBOperStatus = LB_OPER_STATUS_UNSPECIFIED | LB_OPER_STATUS_UP | LB_OPER_STATUS_DOWN

record LogicalBridgeSpec =
  LB_Vni :: "u32 option"
  VlanId :: u32

record LogicalBridgeStatus =
  OperStatus :: LBOperStatus

record LogicalBridge =
  LB_Name :: string
  LB_Spec :: LogicalBridgeSpec
  LB_Status :: "LogicalBridgeStatus option"

record CreateLogicalBridgeRequest =
  LogicalBridgeId :: string
  LogicalBridge :: LogicalBridge

record DeleteLogicalBridgeRequest =
  DLB_Name :: string
  DLB_AllowMissing :: bool

record UpdateLogicalBridgeRequest =
  ULB_LogicalBridge :: LogicalBridge

record GetLogicalBridgeRequest =
  GLB_Name :: string

record ListLogicalBridgesRequest =
  LLB_PageSize :: int
  LLB_PageToken :: string

record ListLogicalBridgesResponse =
  LogicalBridges_out :: "LogicalBridge list"
  LLB_NextPageToken :: string

datatype BridgePortType = UNKNOWN | ACCESS | TRUNK

record BridgePortSpec =
  Ptype :: BridgePortType
  LogicalBridges :: "string list"

record BridgePort =
  BP_Name :: string
  BP_Spec :: BridgePortSpec

record CreateBridgePortRequest =
  BridgePortId :: string
  BridgePort :: BridgePort

datatype Empty = Empty

subsection \<open>The server and its collaborators\<close>

datatype Link = Link string

datatype call =
    Call_LinkByName string
  | Call_LinkModify Link
  | Call_netlinkCreateVrf CreateVrfRequest u32 bytes
  | Call_frrCreateVrfRequest CreateVrfRequest
  | Call_netlinkDeleteVrf Vrf
  | Call_frrDeleteVrfRequest Vrf
  | Call_netlinkCreateLogicalBridge CreateLogicalBridgeRequest
  | Call_netlinkDeleteLogicalBridge LogicalBridge

record 'w Server =
  Vrfs :: "(string \<times> Vrf) list"
  Bridges :: "(string \<times> LogicalBridge) list"
  Pagination :: "string \<rightharpoonup> int"
  World :: 'w
  Calls :: "call list"

text \<open>
  The collaborators. \<open>validateXRequest\<close> are the validators of the handlers (methods of
  the server in another file; like \<open>validateCreateBridgePortRequest\<close> below they are
  functions of the request). \<open>fieldbehavior.ValidateRequiredFields\<close> is a library
  function on any message; it has one field for each message type it is called on
  (\<open>ListVrfsRequest\<close>, \<open>ListLogicalBridgesRequest\<close>, \<open>CreateBridgePortRequest\<close>).
  \<open>ValidateUserSettable\<close> is \<open>resourceid.ValidateUserSettable\<close>. \<open>LinkByName\<close> and
  \<open>LinkModify\<close> are the methods of \<open>s.nLink\<close>; the \<open>netlink...\<close> and \<open>frr...\<close> fields
  are the adapter methods of the server, which act on the backend only.
\<close>

record 'w Deps =
  validateCreateVrfRequest :: "CreateVrfRequest \<Rightarrow> err option"
  validateDeleteVrfRequest :: "DeleteVrfRequest \<Rightarrow> err option"
  validateUpdateVrfRequest :: "UpdateVrfRequest \<Rightarrow> err option"
  validateGetVrfRequest :: "GetVrfRequest \<Rightarrow> err option"
  ValidateRequiredFields_ListVrfs :: "ListVrfsRequest \<Rightarrow> err option"
  validateCreateLogicalBridgeRequest :: "CreateLogicalBridgeRequest \<Rightarrow> err option"
  validateDeleteLogicalBridgeRequest :: "DeleteLogicalBridgeRequest \<Rightarrow> err option"
  validateUpdateLogicalBridgeRequest :: "UpdateLogicalBridgeRequest \<Rightarrow> err option"
  validateGetLogicalBridgeRequest :: "GetLogicalBridgeRequest \<Rightarrow> err option"
  ValidateRequiredFields_ListBridges :: "ListLogicalBridgesRequest \<Rightarrow> err option"
  ValidateRequiredFields_BridgePort :: "CreateBridgePortRequest \<Rightarrow> err option"
  ValidateUserSettable :: "string \<Rightarrow> err option"
  extractPagination :: "int \<Rightarrow> string \<Rightarrow> (string \<rightharpoonup> int) \<Rightarrow> err + (int \<times> int)"
  LinkByName :: "string \<Rightarrow> 'w \<Rightarrow> (err + Link) \<times> 'w"
  LinkModify :: "Link \<Rightarrow> 'w \<Rightarrow> err option \<times> 'w"
  netlinkCreateVrf :: "CreateVrfRequest \<Rightarrow> u32 \<Rightarrow> bytes \<Rightarrow> 'w \<Rightarrow> err option \<times> 'w"
  frrCreateVrfRequest :: "CreateVrfRequest \<Rightarrow> 'w \<Rightarrow> err option \<times> 'w"
  netlinkDeleteVrf :: "Vrf \<Rightarrow> 'w \<Rightarrow> err option \<times> 'w"
  frrDeleteVrfRequest :: "Vrf \<Rightarrow> 'w \<Rightarrow> err option \<times> 'w"
  netlinkCreateLogicalBridge :: "CreateLogicalBridgeRequest \<Rightarrow> 'w \<Rightarrow> err option \<times> 'w"
  netlinkDeleteLogicalBridge :: "LogicalBridge \<Rightarrow> 'w \<Rightarrow> err option \<times> 'w"

text \<open>
  One adapter call: run it on the backend state, keep the new backend state and log
  the call.
\<close>

definition backend :: "('w \<Rightarrow> 'r \<times> 'w) \<Rightarrow> call \<Rightarrow> 'w Server \<Rightarrow> 'r \<times> 'w Server" where
  "backend f c s =
     (case f (World s) of (r, w') \<Rightarrow> (r, s\<lparr>World := w', Calls := Calls s @ [c]\<rparr>))"

subsection \<open>Derived values\<close>

text \<open>
  \<open>math.Mod(x, y)\<close>: the remainder of \<open>x / y\<close> with the sign of \<open>x\<close> and magnitude below
  that of \<open>y\<close>. The handler applies it to \<open>float64(vni)\<close> for a \<open>uint32\<close> and to \<open>10.0\<close>:
  every value involved is an integer below \<open>2 ^ 53\<close>, which \<open>float64\<close> represents
  exactly, and the remainder and the sum \<open>1001 + r\<close> are exact; so the reals compute
  what the floating-point operations compute.
\<close>

definition math_Mod :: "real \<Rightarrow> real \<Rightarrow> real" where
  "math_Mod x y =
     x - y * of_int (if 0 \<le> x / y then \<lfloor>x / y\<rfloor> else \<lceil>x / y\<rceil>)"

text \<open>The conversions \<open>float64(v)\<close> of a \<open>uint32\<close> and \<open>uint32(x)\<close> of an in-range float.\<close>

definition float64_of_u32 :: "u32 \<Rightarrow> real" where
  "float64_of_u32 v = real (unat v)"

definition u32_of_float64 :: "real \<Rightarrow> u32" where
  "u32_of_float64 x = word_of_int (if 0 \<le> x then \<lfloor>x\<rfloor> else \<lceil>x\<rceil>)"

definition tableID_of :: "u32 option \<Rightarrow> u32" where
  "tableID_of vni =
     (case vni of
        None \<Rightarrow> 1000
      | Some v \<Rightarrow> u32_of_float64 (1001 + math_Mod (float64_of_u32 v) 10))"

subsection \<open>VRF handlers\<close>

definition sortVrfs :: "Vrf list \<Rightarrow> Vrf list" where
  "sortVrfs vrfs = sort_key Name vrfs"

definition CreateVrf ::
  "'w Deps \<Rightarrow> string \<Rightarrow> err + bytes \<Rightarrow> CreateVrfRequest \<Rightarrow> 'w Server \<Rightarrow> (err + Vrf) \<times> 'w Server"
where
  "CreateVrf d NewSystemGenerated generateRandMAC in0 s =
     (case validateCreateVrfRequest d in0 of
        Some e \<Rightarrow> (Inl e, s)
      | None \<Rightarrow>
          let resourceID = (if VrfId in0 \<noteq> [] then VrfId in0 else NewSystemGenerated);
              in1 = in0\<lparr>Vrf := (Vrf in0)\<lparr>Name := resourceIDToFullName ''vrfs'' resourceID\<rparr>\<rparr>
          in
            (case map_of (Vrfs s) (Name (Vrf in1)) of
               Some obj \<Rightarrow> (Inr obj, s)
             | None \<Rightarrow>
                 let tableID = tableID_of (Vni (Spec (Vrf in1))) in
                   (case generateRandMAC of
                      Inl e \<Rightarrow> (Inl e, s)
                    | Inr mac \<Rightarrow>
                        (case backend (netlinkCreateVrf d in1 tableID mac)
                                (Call_netlinkCreateVrf in1 tableID mac) s of
                           (Some e, s1) \<Rightarrow> (Inl e, s1)
                         | (None, s1) \<Rightarrow>
                             (case backend (frrCreateVrfRequest d in1)
                                     (Call_frrCreateVrfRequest in1) s1 of
                                (Some e, s2) \<Rightarrow> (Inl e, s2)
                              | (None, s2) \<Rightarrow>
                                  let response = (Vrf in1)\<lparr>Status :=
                                        Some \<lparr>LocalAs = 4, RoutingTable = tableID, Rmac = mac\<rparr>\<rparr>
                                  in (Inr response,
                                      s2\<lparr>Vrfs := AList.update (Name (Vrf in1)) response (Vrfs s2)\<rparr>))))))"

definition DeleteVrf ::
  "'w Deps \<Rightarrow> DeleteVrfRequest \<Rightarrow> 'w Server \<Rightarrow> (err + Empty) \<times> 'w Server"
where
  "DeleteVrf d in0 s =
     (case validateDeleteVrfRequest d in0 of
        Some e \<Rightarrow> (Inl e, s)
      | None \<Rightarrow>
          (case map_of (Vrfs s) (DVR_Name in0) of
             None \<Rightarrow>
               if DVR_AllowMissing in0 then (Inr Empty, s)
               else (Inl (Errorf NotFound (''unable to find key '' @ DVR_Name in0)), s)
           | Some obj \<Rightarrow>
               (case backend (netlinkDeleteVrf d obj) (Call_netlinkDeleteVrf obj) s of
                  (Some e, s1) \<Rightarrow> (Inl e, s1)
                | (None, s1) \<Rightarrow>
                    (case backend (frrDeleteVrfRequest d obj) (Call_frrDeleteVrfRequest obj) s1 of
                       (Some e, s2) \<Rightarrow> (Inl e, s2)
                     | (None, s2) \<Rightarrow>
                         (Inr Empty, s2\<lparr>Vrfs := AList.delete (Name obj) (Vrfs s2)\<rparr>)))))"

definition UpdateVrf ::
  "'w Deps \<Rightarrow> UpdateVrfRequest \<Rightarrow> 'w Server \<Rightarrow> (err + Vrf) \<times> 'w Server"
where
  "UpdateVrf d in0 s =
     (case validateUpdateVrfRequest d in0 of
        Some e \<Rightarrow> (Inl e, s)
      | None \<Rightarrow>
          (case map_of (Vrfs s) (Name (UVR_Vrf in0)) of
             None \<Rightarrow>
               (Inl (Errorf NotFound (''unable to find key '' @ Name (UVR_Vrf in0))), s)
           | Some vrf \<Rightarrow>
               let resourceID = path_Base (Name vrf) in
                 (case backend (LinkByName d resourceID) (Call_LinkByName resourceID) s of
                    (Inl e, s1) \<Rightarrow>
                      (Inl (Errorf NotFound (''unable to find key '' @ resourceID)), s1)
                  | (Inr iface, s1) \<Rightarrow>
                      (case backend (LinkModify d iface) (Call_LinkModify iface) s1 of
                         (Some e, s2) \<Rightarrow> (Inl e, s2)
                       | (None, s2) \<Rightarrow>
                           let response = (UVR_Vrf in0)\<lparr>Status :=
                                 Some \<lparr>LocalAs = 4, RoutingTable = 0, Rmac = []\<rparr>\<rparr>
                           in (Inr response,
                               s2\<lparr>Vrfs := AList.update (Name (UVR_Vrf in0)) response (Vrfs s2)\<rparr>)))))"

definition GetVrf ::
  "'w Deps \<Rightarrow> GetVrfRequest \<Rightarrow> 'w Server \<Rightarrow> (err + Vrf) \<times> 'w Server"
where
  "GetVrf d in0 s =
     (case validateGetVrfRequest d in0 of
        Some e \<Rightarrow> (Inl e, s)
      | None \<Rightarrow>
          (case map_of (Vrfs s) (GVR_Name in0) of
             None \<Rightarrow> (Inl (Errorf NotFound (''unable to find key '' @ GVR_Name in0)), s)
           | Some obj \<Rightarrow>
               let resourceID = path_Base (Name obj) in
                 (case backend (LinkByName d resourceID) (Call_LinkByName resourceID) s of
                    (Inl e, s1) \<Rightarrow>
                      (Inl (Errorf NotFound (''unable to find key '' @ resourceID)), s1)
                  | (Inr iface, s1) \<Rightarrow>
                      (Inr \<lparr>Name = GVR_Name in0,
                            Spec = \<lparr>Vni = Vni (Spec obj)\<rparr>,
                            Status = Some \<lparr>LocalAs = 77, RoutingTable = 0, Rmac = []\<rparr>\<rparr>,
                       s1))))"

text \<open>
  Modelled from the spec: \<open>limitPagination\<close> is not in the source files. The spec:
  the response returns a slice \<open>[offset, offset+size)\<close> of the sorted snapshot, and a
  token is minted if elements remain beyond the returned slice. The slice ends at the
  end of the list when \<open>offset + size\<close> lies beyond it. A Go slice expression
  \<open>result[lo:hi]\<close> panics unless \<open>0 \<le> lo \<le> hi \<le> len(result)\<close>: that is \<open>None\<close>.
\<close>

definition limitPagination :: "'a list \<Rightarrow> int \<Rightarrow> int \<Rightarrow> ('a list \<times> bool) option" where
  "limitPagination result offset sz =
     (let hasMoreElements = (offset + sz < int (length result));
          stop = (if hasMoreElements then offset + sz else int (length result))
      in if 0 \<le> offset \<and> offset \<le> stop
         then Some (take (nat (stop - offset)) (drop (nat offset) result), hasMoreElements)
         else None)"

definition ListVrfs ::
  "'w Deps \<Rightarrow> string \<Rightarrow> ListVrfsRequest \<Rightarrow> 'w Server \<Rightarrow> (err + ListVrfsResponse) \<times> 'w Server"
where
  "ListVrfs d uuid_New in0 s =
     (case ValidateRequiredFields_ListVrfs d in0 of
        Some e \<Rightarrow> (Inl e, s)
      | None \<Rightarrow>
          (case extractPagination d (LVR_PageSize in0) (LVR_PageToken in0) (Pagination s) of
             Inl perr \<Rightarrow> (Inl perr, s)
           | Inr (sz, offset) \<Rightarrow>
               let Blobarray =
                     map (\<lambda>(k, vrf). vrf\<lparr>Status :=
                            Some \<lparr>LocalAs = 4, RoutingTable = 0, Rmac = []\<rparr>\<rparr>) (Vrfs s)
               in
                 (case limitPagination (sortVrfs Blobarray) offset sz of
                    None \<Rightarrow> (Inl (Panic ''slice bounds out of range''), s)
                  | Some (page, hasMoreElements) \<Rightarrow>
                      if hasMoreElements
                      then (Inr \<lparr>Vrfs_out = page, LVR_NextPageToken = uuid_New\<rparr>,
                            s\<lparr>Pagination := (Pagination s)(uuid_New \<mapsto> offset + sz)\<rparr>)
                      else (Inr \<lparr>Vrfs_out = page, LVR_NextPageToken = []\<rparr>, s))))"

subsection \<open>Logical-bridge handlers\<close>

definition sortLogicalBridges :: "LogicalBridge list \<Rightarrow> LogicalBridge list" where
  "sortLogicalBridges bridges = sort_key LB_Name bridges"

definition CreateLogicalBridge ::
  "'w Deps \<Rightarrow> string \<Rightarrow> CreateLogicalBridgeRequest \<Rightarrow> 'w Server
     \<Rightarrow> (err + LogicalBridge) \<times> 'w Server"
where
  "CreateLogicalBridge d NewSystemGenerated in0 s =
     (case validateCreateLogicalBridgeRequest d in0 of
        Some e \<Rightarrow> (Inl e, s)
      | None \<Rightarrow>
          let resourceID =
                (if LogicalBridgeId in0 \<noteq> [] then LogicalBridgeId in0 else NewSystemGenerated);
              in1 = in0\<lparr>LogicalBridge :=
                      (LogicalBridge in0)\<lparr>LB_Name := resourceIDToFullName ''bridges'' resourceID\<rparr>\<rparr>
          in
            (case map_of (Bridges s) (LB_Name (LogicalBridge in1)) of
               Some obj \<Rightarrow> (Inr obj, s)
             | None \<Rightarrow>
                 (case backend (netlinkCreateLogicalBridge d in1)
                         (Call_netlinkCreateLogicalBridge in1) s of
                    (Some e, s1) \<Rightarrow> (Inl e, s1)
                  | (None, s1) \<Rightarrow>
                      let response = (LogicalBridge in1)\<lparr>LB_Status :=
                            Some \<lparr>OperStatus = LB_OPER_STATUS_UP\<rparr>\<rparr>
                      in (Inr response,
                          s1\<lparr>Bridges :=
                               AList.update (LB_Name (LogicalBridge in1)) response (Bridges s1)\<rparr>))))"

definition DeleteLogicalBridge ::
  "'w Deps \<Rightarrow> DeleteLogicalBridgeRequest \<Rightarrow> 'w Server \<Rightarrow> (err + Empty) \<times> 'w Server"
where
  "DeleteLogicalBridge d in0 s =
     (case validateDeleteLogicalBridgeRequest d in0 of
        Some e \<Rightarrow> (Inl e, s)
      | None \<Rightarrow>
          (case map_of (Bridges s) (DLB_Name in0) of
             None \<Rightarrow>
               if DLB_AllowMissing in0 then (Inr Empty, s)
               else (Inl (Errorf NotFound (''unable to find key '' @ DLB_Name in0)), s)
           | Some obj \<Rightarrow>
               (case backend (netlinkDeleteLogicalBridge d obj)
                       (Call_netlinkDeleteLogicalBridge obj) s of
                  (Some e, s1) \<Rightarrow> (Inl e, s1)
                | (None, s1) \<Rightarrow>
                    (Inr Empty, s1\<lparr>Bridges := AList.delete (LB_Name obj) (Bridges s1)\<rparr>))))"

definition UpdateLogicalBridge ::
  "'w Deps \<Rightarrow> UpdateLogicalBridgeRequest \<Rightarrow> 'w Server \<Rightarrow> (err + LogicalBridge) \<times> 'w Server"
where
  "UpdateLogicalBridge d in0 s =
     (case validateUpdateLogicalBridgeRequest d in0 of
        Some e \<Rightarrow> (Inl e, s)
      | None \<Rightarrow>
          (case map_of (Bridges s) (LB_Name (ULB_LogicalBridge in0)) of
             None \<Rightarrow>
               (Inl (Errorf NotFound
                      (''unable to find key '' @ LB_Name (ULB_LogicalBridge in0))), s)
           | Some bridge \<Rightarrow>
               (case (case LB_Vni (LB_Spec bridge) of
                        None \<Rightarrow> (None, s)
                      | Some vni \<Rightarrow>
                          let vxlanName = ''vni'' @ fmt_d (unat vni) in
                            (case backend (LinkByName d vxlanName) (Call_LinkByName vxlanName) s of
                               (Inl e, s1) \<Rightarrow>
                                 (Some (Errorf NotFound (''unable to find key '' @ vxlanName)), s1)
                             | (Inr iface, s1) \<Rightarrow>
                                 backend (LinkModify d iface) (Call_LinkModify iface) s1)) of
                  (Some e, s2) \<Rightarrow> (Inl e, s2)
                | (None, s2) \<Rightarrow>
                    let response = (ULB_LogicalBridge in0)\<lparr>LB_Status :=
                          Some \<lparr>OperStatus = LB_OPER_STATUS_UP\<rparr>\<rparr>
                    in (Inr response,
                        s2\<lparr>Bridges :=
                             AList.update (LB_Name (ULB_LogicalBridge in0)) response (Bridges s2)\<rparr>))))"

definition GetLogicalBridge ::
  "'w Deps \<Rightarrow> GetLogicalBridgeRequest \<Rightarrow> 'w Server \<Rightarrow> (err + LogicalBridge) \<times> 'w Server"
where
  "GetLogicalBridge d in0 s =
     (case validateGetLogicalBridgeRequest d in0 of
        Some e \<Rightarrow> (Inl e, s)
      | None \<Rightarrow>
          (case map_of (Bridges s) (GLB_Name in0) of
             None \<Rightarrow> (Inl (Errorf NotFound (''unable to find key '' @ GLB_Name in0)), s)
           | Some bridge \<Rightarrow>
               let view = \<lparr>LB_Name = GLB_Name in0,
                           LB_Spec = \<lparr>LB_Vni = LB_Vni (LB_Spec bridge),
                                      VlanId = VlanId (LB_Spec bridge)\<rparr>,
                           LB_Status = Some \<lparr>OperStatus = LB_OPER_STATUS_UP\<rparr>\<rparr>
               in
                 (case LB_Vni (LB_Spec bridge) of
                    None \<Rightarrow> (Inr view, s)
                  | Some vni \<Rightarrow>
                      let vxlanName = ''vni'' @ fmt_d (unat vni) in
                        (case backend (LinkByName d vxlanName) (Call_LinkByName vxlanName) s of
                           (Inl e, s1) \<Rightarrow>
                             (Inl (Errorf NotFound (''unable to find key '' @ vxlanName)), s1)
                         | (Inr iface, s1) \<Rightarrow> (Inr view, s1)))))"

definition ListLogicalBridges ::
  "'w Deps \<Rightarrow> string \<Rightarrow> ListLogicalBridgesRequest \<Rightarrow> 'w Server
     \<Rightarrow> (err + ListLogicalBridgesResponse) \<times> 'w Server"
where
  "ListLogicalBridges d uuid_New in0 s =
     (case ValidateRequiredFields_ListBridges d in0 of
        Some e \<Rightarrow> (Inl e, s)
      | None \<Rightarrow>
          (case extractPagination d (LLB_PageSize in0) (LLB_PageToken in0) (Pagination s) of
             Inl perr \<Rightarrow> (Inl perr, s)
           | Inr (sz, offset) \<Rightarrow>
               let Blobarray =
                     map (\<lambda>(k, bridge). bridge\<lparr>LB_Status :=
                            Some \<lparr>OperStatus = LB_OPER_STATUS_UP\<rparr>\<rparr>) (Bridges s)
               in
                 (case limitPagination (sortLogicalBridges Blobarray) offset sz of
                    None \<Rightarrow> (Inl (Panic ''slice bounds out of range''), s)
                  | Some (page, hasMoreElements) \<Rightarrow>
                      if hasMoreElements
                      then (Inr \<lparr>LogicalBridges_out = page, LLB_NextPageToken = uuid_New\<rparr>,
                            s\<lparr>Pagination := (Pagination s)(uuid_New \<mapsto> offset + sz)\<rparr>)
                      else (Inr \<lparr>LogicalBridges_out = page, LLB_NextPageToken = []\<rparr>, s))))"

subsection \<open>Bridge-port validation\<close>

definition validateCreateBridgePortRequest ::
  "'w Deps \<Rightarrow> CreateBridgePortRequest \<Rightarrow> err option"
where
  "validateCreateBridgePortRequest d in0 =
     (case ValidateRequiredFields_BridgePort d in0 of
        Some e \<Rightarrow> Some e
      | None \<Rightarrow>
          let len = length (LogicalBridges (BP_Spec (BridgePort in0))) in
            if Ptype (BP_Spec (BridgePort in0)) = ACCESS \<and> len > 1
            then Some (Errorf InvalidArgument
                   (''ACCESS type must have single LogicalBridge and not ('' @ fmt_d len @ '')''))
            else if BridgePortId in0 \<noteq> []
            then (case ValidateUserSettable d (BridgePortId in0) of
                    Some e \<Rightarrow> Some e
                  | None \<Rightarrow> None)
            else None)"

subsection \<open>The store invariant\<close>

text \<open>
  Every handler that writes a store writes a message under the message's own name
  (\<open>s.Vrfs[in.Vrf.Name] = response\<close> with \<open>response\<close> a clone of \<open>in.Vrf\<close>), and a Go map
  holds a key once. \<open>DeleteVrf\<close> relies on it: it looks up \<open>in.Name\<close> and deletes
  \<open>obj.Name\<close>.
\<close>

definition store_ok :: "('a \<Rightarrow> string) \<Rightarrow> (string \<times> 'a) list \<Rightarrow> bool" where
  "store_ok name_of al =
     (distinct (map fst al) \<and> list_all (\<lambda>(k, v). name_of v = k) al)"

subsection \<open>A sample environment\<close>

text \<open>
  Modelled from the spec: \<open>extractPagination\<close> is not in the source files. The spec:
  the page size is the page length, zero maps to a fixed default (here 50); a token,
  if present, is resolved to a previously recorded offset, and an unknown token is an
  \<open>InvalidArgument\<close> error. It is used in the examples only: the handlers take
  \<open>extractPagination\<close> from \<open>Deps\<close>.
\<close>

definition extractPagination_spec ::
  "int \<Rightarrow> string \<Rightarrow> (string \<rightharpoonup> int) \<Rightarrow> err + (int \<times> int)"
where
  "extractPagination_spec pageSize pageToken pagination =
     (let sz = (if pageSize = 0 then 50 else pageSize) in
        if pageToken = [] then Inr (sz, 0)
        else (case pagination pageToken of
                None \<Rightarrow> Inl (Errorf InvalidArgument
                               (''unable to find pagination token '' @ pageToken))
              | Some offset \<Rightarrow> Inr (sz, offset)))"

text \<open>
  A backend for the examples: the backend state is the list of the names of the kernel
  links that exist. Creating a VRF adds the link of its short id, creating a bridge with
  a VNI adds \<open>vni<N>\<close>; deleting removes the link and fails when it is not there; the
  routing daemon always succeeds; every request is valid.
\<close>

definition sample_LinkByName :: "string \<Rightarrow> string list \<Rightarrow> (err + Link) \<times> string list" where
  "sample_LinkByName n w =
     (if n \<in> set w then (Inr (Link n), w) else (Inl (Failure ''Link not found''), w))"

definition sample_delete_link :: "string \<Rightarrow> string list \<Rightarrow> err option \<times> string list" where
  "sample_delete_link n w =
     (if n \<in> set w then (None, removeAll n w) else (Some (Failure ''Link not found''), w))"

definition sample_bridge_links :: "LogicalBridge \<Rightarrow> string list" where
  "sample_bridge_links b =
     (case LB_Vni (LB_Spec b) of None \<Rightarrow> [] | Some vni \<Rightarrow> [''vni'' @ fmt_d (unat vni)])"

definition sample_Deps :: "string list Deps" where
  "sample_Deps =
     \<lparr>validateCreateVrfRequest = (\<lambda>_. None),
      validateDeleteVrfRequest = (\<lambda>_. None),
      validateUpdateVrfRequest = (\<lambda>_. None),
      validateGetVrfRequest = (\<lambda>_. None),
      ValidateRequiredFields_ListVrfs = (\<lambda>_. None),
      validateCreateLogicalBridgeRequest = (\<lambda>_. None),
      validateDeleteLogicalBridgeRequest = (\<lambda>_. None),
      validateUpdateLogicalBridgeRequest = (\<lambda>_. None),
      validateGetLogicalBridgeRequest = (\<lambda>_. None),
      ValidateRequiredFields_ListBridges = (\<lambda>_. None),
      ValidateRequiredFields_BridgePort = (\<lambda>_. None),
      ValidateUserSettable = (\<lambda>_. None),
      extractPagination = extractPagination_spec,
      LinkByName = sample_LinkByName,
      LinkModify = (\<lambda>l w. (None, w)),
      netlinkCreateVrf = (\<lambda>r t m w. (None, path_Base (Name (Vrf r)) # w)),
      frrCreateVrfRequest = (\<lambda>r w. (None, w)),
      netlinkDeleteVrf = (\<lambda>obj. sample_delete_link (path_Base (Name obj))),
      frrDeleteVrfRequest = (\<lambda>obj w. (None, w)),
      netlinkCreateLogicalBridge = (\<lambda>r w. (None, sample_bridge_links (LogicalBridge r) @ w)),
      netlinkDeleteLogicalBridge =
        (\<lambda>obj w. case sample_bridge_links obj of
                    [] \<Rightarrow> (None, w)
                  | n # _ \<Rightarrow> sample_delete_link n w)\<rparr>"

definition sample_mac :: bytes where
  "sample_mac = [0xAA, 0xBB, 0xCC, 0x00, 0x00, 0x01]"

definition vrf_blue :: Vrf where
  "vrf_blue =
     \<lparr>Name = ''vrfs/blue'', Spec = \<lparr>Vni = Some 12\<rparr>,
      Status = Some \<lparr>LocalAs = 4, RoutingTable = 1003, Rmac = sample_mac\<rparr>\<rparr>"

definition bridge_br1 :: LogicalBridge where
  "bridge_br1 =
     \<lparr>LB_Name = ''bridges/br1'', LB_Spec = \<lparr>LB_Vni = Some 11, VlanId = 22\<rparr>,
      LB_Status = Some \<lparr>OperStatus = LB_OPER_STATUS_UP\<rparr>\<rparr>"

text \<open>The empty server, and a server holding one VRF and one bridge with their links.\<close>

definition srv_empty :: "string list Server" where
  "srv_empty = \<lparr>Vrfs = [], Bridges = [], Pagination = Map.empty, World = [], Calls = []\<rparr>"

definition srv_one :: "string list Server" where
  "srv_one =
     \<lparr>Vrfs = [(''vrfs/blue'', vrf_blue)], Bridges = [(''bridges/br1'', bridge_br1)],
      Pagination = Map.empty, World = [''vni11'', ''blue''], Calls = []\<rparr>"

text \<open>The same stores after the kernel links were removed out of band.\<close>

definition srv_nolinks :: "string list Server" where
  "srv_nolinks = srv_one\<lparr>World := []\<rparr>"

text \<open>
  A create request with the caller-supplied id \<open>blue\<close> and VNI 12, the request as the
  handler leaves it (name filled in), and the server after \<open>CreateVrf\<close> ran on the
  empty server with the random MAC \<open>sample_mac\<close>.
\<close>

definition creq_blue :: CreateVrfRequest where
  "creq_blue = \<lparr>VrfId = ''blue'', Vrf = \<lparr>Name = [], Spec = \<lparr>Vni = Some 12\<rparr>, Status = None\<rparr>\<rparr>"

definition creq_blue_named :: CreateVrfRequest where
  "creq_blue_named =
     \<lparr>VrfId = ''blue'', Vrf = \<lparr>Name = ''vrfs/blue'', Spec = \<lparr>Vni = Some 12\<rparr>, Status = None\<rparr>\<rparr>"

definition srv_blue :: "string list Server" where
  "srv_blue =
     \<lparr>Vrfs = [(''vrfs/blue'', vrf_blue)], Bridges = [], Pagination = Map.empty,
      World = [''blue''],
      Calls = [Call_netlinkCreateVrf creq_blue_named 1003 sample_mac,
               Call_frrCreateVrfRequest creq_blue_named]\<rparr>"

definition ureq_blue :: UpdateVrfRequest where
  "ureq_blue =
     \<lparr>UVR_Vrf = \<lparr>Name = ''vrfs/blue'', Spec = \<lparr>Vni = Some 12\<rparr>, Status = None\<rparr>\<rparr>"

definition ureq_br1 :: UpdateLogicalBridgeRequest where
  "ureq_br1 =
     \<lparr>ULB_LogicalBridge =
        \<lparr>LB_Name = ''bridges/br1'', LB_Spec = \<lparr>LB_Vni = Some 11, VlanId = 22\<rparr>,
         LB_Status = None\<rparr>\<rparr>"

text \<open>
  The same for a bridge: a create request with the caller-supplied id \<open>br1\<close>, VNI 11
  and VLAN 22, and the server after \<open>CreateLogicalBridge\<close> ran on the empty server.
\<close>

definition creq_br1 :: CreateLogicalBridgeRequest where
  "creq_br1 =
     \<lparr>LogicalBridgeId = ''br1'',
      LogicalBridge = \<lparr>LB_Name = [], LB_Spec = \<lparr>LB_Vni = Some 11, VlanId = 22\<rparr>,
                       LB_Status = None\<rparr>\<rparr>"

definition creq_br1_named :: CreateLogicalBridgeRequest where
  "creq_br1_named =
     \<lparr>LogicalBridgeId = ''br1'',
      LogicalBridge = \<lparr>LB_Name = ''bridges/br1'', LB_Spec = \<lparr>LB_Vni = Some 11, VlanId = 22\<rparr>,
                       LB_Status = None\<rparr>\<rparr>"

definition srv_br1 :: "string list Server" where
  "srv_br1 =
     \<lparr>Vrfs = [], Bridges = [(''bridges/br1'', bridge_br1)], Pagination = Map.empty,
      World = [''vni11''],
      Calls = [Call_netlinkCreateLogicalBridge creq_br1_named]\<rparr>"

text \<open>
  The pagination example of the spec: five bridges \<open>bridges/a\<close> to \<open>bridges/e\<close>, stored
  in some other order (and one VRF), and a pagination table that holds one token, for
  the offset 2.
\<close>

definition sample_bridge :: "string \<Rightarrow> LogicalBridge" where
  "sample_bridge n =
     \<lparr>LB_Name = ''bridges/'' @ n, LB_Spec = \<lparr>LB_Vni = None, VlanId = 22\<rparr>,
      LB_Status = Some \<lparr>OperStatus = LB_OPER_STATUS_UP\<rparr>\<rparr>"

definition srv_five :: "string list Server" where
  "srv_five =
     \<lparr>Vrfs = [(''vrfs/blue'', vrf_blue)],
      Bridges = [(''bridges/c'', sample_bridge ''c''), (''bridges/a'', sample_bridge ''a''),
                 (''bridges/e'', sample_bridge ''e''), (''bridges/b'', sample_bridge ''b''),
                 (''bridges/d'', sample_bridge ''d'')],
      Pagination = [''token-1'' \<mapsto> 2], World = [], Calls = []\<rparr>"

section \<open>Properties\<close>

subsection \<open>Derived values\<close>

lemma math_Mod_nat: "math_Mod (real n) 10 = real (n mod 10)"
proof -
  have f: "\<lfloor>real n / 10\<rfloor> = int (n div 10)"
    using floor_divide_of_nat_eq [of n 10, where ?'a = real] by simp
  have "real n = real (n div 10 * 10 + n mod 10)"
    by (simp only: div_mult_mod_eq)
  also have "\<dots> = 10 * real (n div 10) + real (n mod 10)"
    by (simp only: of_nat_add of_nat_mult of_nat_numeral mult.commute)
  finally have e: "real n - 10 * real (n div 10) = real (n mod 10)"
    by linarith
  have "0 \<le> real n / 10" by simp
  then show ?thesis unfolding math_Mod_def using f e by simp
qed

lemma math_Mod_u32: "math_Mod (float64_of_u32 v) 10 = real (unat v mod 10)"
  unfolding float64_of_u32_def by (rule math_Mod_nat)

lemma u32_of_float64_nat: "u32_of_float64 (real n) = word_of_nat n"
  unfolding u32_of_float64_def
  by (simp only: of_nat_0_le_iff if_True floor_of_nat word_of_int_nat of_int_of_nat_eq)

lemma tableID_of_Some: "tableID_of (Some v) = word_of_nat (1001 + unat v mod 10)"
proof -
  have "(1001::real) + real (unat v mod 10) = real (1001 + unat v mod 10)"
    by (simp only: of_nat_add of_nat_numeral)
  then show ?thesis
    unfolding tableID_of_def option.case math_Mod_u32 by (simp only: u32_of_float64_nat)
qed

lemma tableID_of_None: "tableID_of None = 1000"
  by (simp add: tableID_of_def)

subsection \<open>Delete\<close>

lemma DeleteVrf_absent:
  assumes "validateDeleteVrfRequest d req = None"
    and "map_of (Vrfs s) (DVR_Name req) = None"
  shows "DeleteVrf d req s =
           (if DVR_AllowMissing req then Inr Empty
            else Inl (Errorf NotFound (''unable to find key '' @ DVR_Name req)), s)"
  using assms by (simp add: DeleteVrf_def)

lemma DeleteLogicalBridge_absent:
  assumes "validateDeleteLogicalBridgeRequest d breq = None"
    and "map_of (Bridges s) (DLB_Name breq) = None"
  shows "DeleteLogicalBridge d breq s =
           (if DLB_AllowMissing breq then Inr Empty
            else Inl (Errorf NotFound (''unable to find key '' @ DLB_Name breq)), s)"
  using assms by (simp add: DeleteLogicalBridge_def)

text \<open>
  Claim C7. \<open>DeleteVrf\<close> and \<open>DeleteLogicalBridge\<close> on a name that is absent from the
  store (the request having passed validation): the call returns the empty
  acknowledgment exactly when the request's allow-missing flag is set and fails with
  \<open>NotFound\<close> otherwise; in both cases the server state after the call is the state
  before it (no store change, no backend call logged, backend untouched).
\<close>

theorem C7_delete_absent_allow_missing:
  "(validateDeleteVrfRequest d req = None \<and> map_of (Vrfs s) (DVR_Name req) = None \<longrightarrow>
      DeleteVrf d req s =
        (if DVR_AllowMissing req then Inr Empty
         else Inl (Errorf NotFound (''unable to find key '' @ DVR_Name req)), s)) \<and>
   (validateDeleteLogicalBridgeRequest d breq = None \<and> map_of (Bridges s) (DLB_Name breq) = None \<longrightarrow>
      DeleteLogicalBridge d breq s =
        (if DLB_AllowMissing breq then Inr Empty
         else Inl (Errorf NotFound (''unable to find key '' @ DLB_Name breq)), s))"
  using DeleteVrf_absent DeleteLogicalBridge_absent by blast

theorem C7_delete_absent_allow_missing_witness:
  "validateDeleteVrfRequest sample_Deps \<lparr>DVR_Name = ''vrfs/red'', DVR_AllowMissing = True\<rparr> = None \<and>
   map_of (Vrfs srv_one) ''vrfs/red'' = None \<and>
   DeleteVrf sample_Deps \<lparr>DVR_Name = ''vrfs/red'', DVR_AllowMissing = True\<rparr> srv_one
     = (Inr Empty, srv_one) \<and>
   validateDeleteLogicalBridgeRequest sample_Deps
     \<lparr>DLB_Name = ''bridges/br9'', DLB_AllowMissing = False\<rparr> = None \<and>
   map_of (Bridges srv_one) ''bridges/br9'' = None \<and>
   DeleteLogicalBridge sample_Deps \<lparr>DLB_Name = ''bridges/br9'', DLB_AllowMissing = False\<rparr> srv_one
     = (Inl (Errorf NotFound ''unable to find key bridges/br9''), srv_one)"
  using C7_delete_absent_allow_missing
    [where d = sample_Deps and s = srv_one
       and req = "\<lparr>DVR_Name = ''vrfs/red'', DVR_AllowMissing = True\<rparr>"
       and breq = "\<lparr>DLB_Name = ''bridges/br9'', DLB_AllowMissing = False\<rparr>"]
  by (simp add: sample_Deps_def srv_one_def)

lemma store_ok_lookup:
  assumes "store_ok f al" and "map_of al k = Some v"
  shows "f v = k"
proof -
  from assms(2) have "(k, v) \<in> set al" by (rule map_of_SomeD)
  with assms(1) show ?thesis by (auto simp: store_ok_def list_all_iff)
qed

lemma store_ok_update:
  assumes "store_ok f al" and "f v = k"
  shows "store_ok f (AList.update k v al)"
proof -
  have "list_all (\<lambda>(k, v). f v = k) al \<Longrightarrow> list_all (\<lambda>(k, v). f v = k) (AList.update k v al)"
    using assms(2) by (induction al) auto
  with assms(1) show ?thesis by (simp add: store_ok_def distinct_update)
qed

lemma store_ok_delete:
  assumes "store_ok f al"
  shows "store_ok f (AList.delete k al)"
proof -
  have "distinct (map fst (AList.delete k al))"
    using assms by (simp add: store_ok_def distinct_delete)
  moreover have "set (AList.delete k al) \<subseteq> set al"
    by (auto simp: AList.delete_eq)
  ultimately show ?thesis
    using assms by (auto simp: store_ok_def list_all_iff)
qed

lemma DeleteVrf_present:
  assumes "validateDeleteVrfRequest d req = None"
    and "map_of (Vrfs s) (DVR_Name req) = Some obj"
    and "netlinkDeleteVrf d obj (World s) = (n, wn)"
    and "frrDeleteVrfRequest d obj wn = (f, wr)"
  shows "fst (DeleteVrf d req s) =
           (case n of Some e \<Rightarrow> Inl e
            | None \<Rightarrow> (case f of Some e \<Rightarrow> Inl e | None \<Rightarrow> Inr Empty))"
    and "Vrfs (snd (DeleteVrf d req s)) =
           (if n = None \<and> f = None then AList.delete (Name obj) (Vrfs s) else Vrfs s)"
  using assms by (auto simp: DeleteVrf_def backend_def split: option.splits)

lemma DeleteLogicalBridge_present:
  assumes "validateDeleteLogicalBridgeRequest d breq = None"
    and "map_of (Bridges s) (DLB_Name breq) = Some bobj"
    and "netlinkDeleteLogicalBridge d bobj (World s) = (nb, wb)"
  shows "fst (DeleteLogicalBridge d breq s) = (case nb of Some e \<Rightarrow> Inl e | None \<Rightarrow> Inr Empty)"
    and "Bridges (snd (DeleteLogicalBridge d breq s)) =
           (if nb = None then AList.delete (LB_Name bobj) (Bridges s) else Bridges s)"
  using assms by (auto simp: DeleteLogicalBridge_def backend_def split: option.splits)

text \<open>
Claim C4. \<open>DeleteVrf\<close> and \<open>DeleteLogicalBridge\<close> on a name that is present in the
  store (the request having passed validation, the store holding every message under
  its own name). Let \<open>n\<close> be the outcome of the netlink adapter and, for a VRF, \<open>f\<close> the
  outcome of the FRR adapter on the backend state netlink leaves. The call returns the
  first adapter error, if there is one, and then the store is unchanged (the entry is
  still there); it returns the empty acknowledgment when every adapter call succeeds,
  and exactly then the entry is removed from the store, every other entry staying.
\<close>

theorem C4_delete_removes_iff_backends_succeed:
  "(validateDeleteVrfRequest d req = None \<and> store_ok Name (Vrfs s) \<and>
    map_of (Vrfs s) (DVR_Name req) = Some obj \<and>
    netlinkDeleteVrf d obj (World s) = (n, wn) \<and> frrDeleteVrfRequest d obj wn = (f, wr) \<longrightarrow>
      fst (DeleteVrf d req s) =
        (case n of Some e \<Rightarrow> Inl e
         | None \<Rightarrow> (case f of Some e \<Rightarrow> Inl e | None \<Rightarrow> Inr Empty)) \<and>
      (if n = None \<and> f = None
       then map_of (Vrfs (snd (DeleteVrf d req s))) = (map_of (Vrfs s))(DVR_Name req := None)
       else Vrfs (snd (DeleteVrf d req s)) = Vrfs s)) \<and>
   (validateDeleteLogicalBridgeRequest d breq = None \<and> store_ok LB_Name (Bridges s) \<and>
    map_of (Bridges s) (DLB_Name breq) = Some bobj \<and>
    netlinkDeleteLogicalBridge d bobj (World s) = (nb, wb) \<longrightarrow>
      fst (DeleteLogicalBridge d breq s) = (case nb of Some e \<Rightarrow> Inl e | None \<Rightarrow> Inr Empty) \<and>
      (if nb = None
       then map_of (Bridges (snd (DeleteLogicalBridge d breq s)))
              = (map_of (Bridges s))(DLB_Name breq := None)
       else Bridges (snd (DeleteLogicalBridge d breq s)) = Bridges s))"
proof (intro conjI impI)
  assume a: "validateDeleteVrfRequest d req = None \<and> store_ok Name (Vrfs s) \<and>
    map_of (Vrfs s) (DVR_Name req) = Some obj \<and>
    netlinkDeleteVrf d obj (World s) = (n, wn) \<and> frrDeleteVrfRequest d obj wn = (f, wr)"
  then have nm: "Name obj = DVR_Name req" by (blast intro: store_ok_lookup)
  from a show "fst (DeleteVrf d req s) =
        (case n of Some e \<Rightarrow> Inl e
         | None \<Rightarrow> (case f of Some e \<Rightarrow> Inl e | None \<Rightarrow> Inr Empty))"
    by (blast intro: DeleteVrf_present(1))
  from a have "Vrfs (snd (DeleteVrf d req s)) =
           (if n = None \<and> f = None then AList.delete (Name obj) (Vrfs s) else Vrfs s)"
    by (blast intro: DeleteVrf_present(2))
  then show "if n = None \<and> f = None
       then map_of (Vrfs (snd (DeleteVrf d req s))) = (map_of (Vrfs s))(DVR_Name req := None)
       else Vrfs (snd (DeleteVrf d req s)) = Vrfs s"
    by (simp add: nm delete_conv')
next
  assume a: "validateDeleteLogicalBridgeRequest d breq = None \<and> store_ok LB_Name (Bridges s) \<and>
    map_of (Bridges s) (DLB_Name breq) = Some bobj \<and>
    netlinkDeleteLogicalBridge d bobj (World s) = (nb, wb)"
  then have nm: "LB_Name bobj = DLB_Name breq" by (blast intro: store_ok_lookup)
  from a show "fst (DeleteLogicalBridge d breq s) = (case nb of Some e \<Rightarrow> Inl e | None \<Rightarrow> Inr Empty)"
    by (blast intro: DeleteLogicalBridge_present(1))
  from a have "Bridges (snd (DeleteLogicalBridge d breq s)) =
           (if nb = None then AList.delete (LB_Name bobj) (Bridges s) else Bridges s)"
    by (blast intro: DeleteLogicalBridge_present(2))
  then show "if nb = None
       then map_of (Bridges (snd (DeleteLogicalBridge d breq s)))
              = (map_of (Bridges s))(DLB_Name breq := None)
       else Bridges (snd (DeleteLogicalBridge d breq s)) = Bridges s"
    by (simp add: nm delete_conv')
qed

lemma path_Base_blue: "path_Base ''vrfs/blue'' = ''blue''" by (simp add: path_Base_def)
lemma fmt_d_11: "fmt_d 11 = ''11''" by code_simp

theorem C4_delete_removes_iff_backends_succeed_witness:
  "validateDeleteVrfRequest sample_Deps \<lparr>DVR_Name = ''vrfs/blue'', DVR_AllowMissing = False\<rparr> = None \<and>
   store_ok Name (Vrfs srv_one) \<and>
   map_of (Vrfs srv_one) ''vrfs/blue'' = Some vrf_blue \<and>
   netlinkDeleteVrf sample_Deps vrf_blue (World srv_one) = (None, [''vni11'']) \<and>
   frrDeleteVrfRequest sample_Deps vrf_blue [''vni11''] = (None, [''vni11'']) \<and>
   fst (DeleteVrf sample_Deps \<lparr>DVR_Name = ''vrfs/blue'', DVR_AllowMissing = False\<rparr> srv_one)
     = Inr Empty \<and>
   map_of (Vrfs (snd (DeleteVrf sample_Deps
       \<lparr>DVR_Name = ''vrfs/blue'', DVR_AllowMissing = False\<rparr> srv_one))) ''vrfs/blue'' = None \<and>
   validateDeleteLogicalBridgeRequest sample_Deps
     \<lparr>DLB_Name = ''bridges/br1'', DLB_AllowMissing = False\<rparr> = None \<and>
   store_ok LB_Name (Bridges srv_nolinks) \<and>
   map_of (Bridges srv_nolinks) ''bridges/br1'' = Some bridge_br1 \<and>
   netlinkDeleteLogicalBridge sample_Deps bridge_br1 (World srv_nolinks)
     = (Some (Failure ''Link not found''), []) \<and>
   fst (DeleteLogicalBridge sample_Deps
       \<lparr>DLB_Name = ''bridges/br1'', DLB_AllowMissing = False\<rparr> srv_nolinks)
     = Inl (Failure ''Link not found'') \<and>
   Bridges (snd (DeleteLogicalBridge sample_Deps
       \<lparr>DLB_Name = ''bridges/br1'', DLB_AllowMissing = False\<rparr> srv_nolinks))
     = [(''bridges/br1'', bridge_br1)]"
  using C4_delete_removes_iff_backends_succeed
    [where d = sample_Deps and s = srv_one and obj = vrf_blue
       and req = "\<lparr>DVR_Name = ''vrfs/blue'', DVR_AllowMissing = False\<rparr>"
       and n = None and wn = "[''vni11'']" and f = None and wr = "[''vni11'']"
       and breq = "\<lparr>DLB_Name = ''bridges/br9'', DLB_AllowMissing = False\<rparr>"]
    C4_delete_removes_iff_backends_succeed
    [where d = sample_Deps and s = srv_nolinks and bobj = bridge_br1
       and breq = "\<lparr>DLB_Name = ''bridges/br1'', DLB_AllowMissing = False\<rparr>"
       and nb = "Some (Failure ''Link not found'')" and wb = "[]"]
  by (simp add: sample_Deps_def srv_one_def srv_nolinks_def store_ok_def vrf_blue_def
        bridge_br1_def sample_delete_link_def sample_bridge_links_def path_Base_blue fmt_d_11)

subsection \<open>Update\<close>

lemma path_Base_full_name:
  assumes "rid \<noteq> []" and "CHR ''/'' \<notin> set rid"
  shows "path_Base (resourceIDToFullName c rid) = rid"
proof -
  let ?p = "c @ CHR ''/'' # rid"
  have rp: "rev ?p = rev rid @ CHR ''/'' # rev c" by simp
  have ns: "CHR ''/'' \<notin> set (rev rid)" using assms(2) by simp
  from assms(1) have "rev rid \<noteq> []" by simp
  with ns obtain x xs where x: "rev rid = x # xs" "x \<noteq> CHR ''/''"
    by (cases "rev rid") auto
  have "dropWhile (\<lambda>ch. ch = CHR ''/'') (rev rid @ CHR ''/'' # rev c) = rev rid @ CHR ''/'' # rev c"
    using x by simp
  then have q: "rev (dropWhile (\<lambda>ch. ch = CHR ''/'') (rev ?p)) = ?p"
    by (simp only: rp [symmetric] rev_rev_ident)
  have "takeWhile (\<lambda>ch. ch \<noteq> CHR ''/'') (rev rid @ CHR ''/'' # rev c) = rev rid"
  proof -
    have "\<And>ch. ch \<in> set (rev rid) \<Longrightarrow> ch \<noteq> CHR ''/''" using ns by blast
    then show ?thesis by (subst takeWhile_append2) simp_all
  qed
  then have r: "rev (takeWhile (\<lambda>ch. ch \<noteq> CHR ''/'') (rev ?p)) = rid"
    by (simp only: rp rev_rev_ident)
  have "path_Base ?p = rid"
    unfolding path_Base_def Let_def q r using assms(1) by simp
  then show ?thesis by (simp add: resourceIDToFullName_def)
qed

lemma UpdateVrf_link_missing:
  assumes "validateUpdateVrfRequest d req = None"
    and "map_of (Vrfs s) (Name (UVR_Vrf req)) = Some vrf"
    and "LinkByName d (path_Base (Name vrf)) (World s) = (Inl e, w)"
  shows "UpdateVrf d req s =
           (Inl (Errorf NotFound (''unable to find key '' @ path_Base (Name vrf))),
            s\<lparr>World := w, Calls := Calls s @ [Call_LinkByName (path_Base (Name vrf))]\<rparr>)"
  using assms by (simp add: UpdateVrf_def backend_def Let_def)

lemma UpdateLogicalBridge_link_missing:
  assumes "validateUpdateLogicalBridgeRequest d breq = None"
    and "map_of (Bridges s) (LB_Name (ULB_LogicalBridge breq)) = Some bridge"
    and "LB_Vni (LB_Spec bridge) = Some vni"
    and "LinkByName d (''vni'' @ fmt_d (unat vni)) (World s) = (Inl e, w)"
  shows "UpdateLogicalBridge d breq s =
           (Inl (Errorf NotFound (''unable to find key '' @ ''vni'' @ fmt_d (unat vni))),
            s\<lparr>World := w, Calls := Calls s @ [Call_LinkByName (''vni'' @ fmt_d (unat vni))]\<rparr>)"
  using assms by (simp add: UpdateLogicalBridge_def backend_def Let_def)

text \<open>
Claim C8. An update of a name that is present in the store (the request having
  passed validation) fails with \<open>NotFound\<close> when the kernel link cannot be resolved,
  and the stores are then unchanged. \<open>UpdateVrf\<close> resolves the link by
  \<open>path.Base\<close> of the stored object's name, which is the short id for a name
  \<open>vrfs/<id>\<close>; \<open>UpdateLogicalBridge\<close>, for a stored bridge whose VNI is set, by the
  interface name \<open>vni<N>\<close>.
\<close>

theorem C8_update_requires_live_link:
  "(validateUpdateVrfRequest d req = None \<and>
    map_of (Vrfs s) (Name (UVR_Vrf req)) = Some vrf \<and>
    LinkByName d (path_Base (Name vrf)) (World s) = (Inl e, w) \<longrightarrow>
      fst (UpdateVrf d req s)
        = Inl (Errorf NotFound (''unable to find key '' @ path_Base (Name vrf))) \<and>
      Vrfs (snd (UpdateVrf d req s)) = Vrfs s \<and>
      Bridges (snd (UpdateVrf d req s)) = Bridges s) \<and>
   (rid \<noteq> [] \<and> CHR ''/'' \<notin> set rid \<longrightarrow>
      path_Base (resourceIDToFullName ''vrfs'' rid) = rid) \<and>
   (validateUpdateLogicalBridgeRequest d breq = None \<and>
    map_of (Bridges s) (LB_Name (ULB_LogicalBridge breq)) = Some bridge \<and>
    LB_Vni (LB_Spec bridge) = Some vni \<and>
    LinkByName d (''vni'' @ fmt_d (unat vni)) (World s) = (Inl eb, wb) \<longrightarrow>
      fst (UpdateLogicalBridge d breq s)
        = Inl (Errorf NotFound (''unable to find key vni'' @ fmt_d (unat vni))) \<and>
      Vrfs (snd (UpdateLogicalBridge d breq s)) = Vrfs s \<and>
      Bridges (snd (UpdateLogicalBridge d breq s)) = Bridges s)"
  by (simp add: UpdateVrf_link_missing UpdateLogicalBridge_link_missing path_Base_full_name)


theorem C8_update_requires_live_link_witness:
  "validateUpdateVrfRequest sample_Deps ureq_blue = None \<and>
   map_of (Vrfs srv_nolinks) (Name (UVR_Vrf ureq_blue)) = Some vrf_blue \<and>
   LinkByName sample_Deps (path_Base (Name vrf_blue)) (World srv_nolinks)
     = (Inl (Failure ''Link not found''), []) \<and>
   fst (UpdateVrf sample_Deps ureq_blue srv_nolinks)
     = Inl (Errorf NotFound ''unable to find key blue'') \<and>
   Vrfs (snd (UpdateVrf sample_Deps ureq_blue srv_nolinks)) = Vrfs srv_nolinks \<and>
   ''blue'' \<noteq> [] \<and> CHR ''/'' \<notin> set ''blue'' \<and>
   path_Base (resourceIDToFullName ''vrfs'' ''blue'') = ''blue'' \<and>
   validateUpdateLogicalBridgeRequest sample_Deps ureq_br1 = None \<and>
   map_of (Bridges srv_nolinks) (LB_Name (ULB_LogicalBridge ureq_br1)) = Some bridge_br1 \<and>
   LB_Vni (LB_Spec bridge_br1) = Some 11 \<and>
   LinkByName sample_Deps (''vni'' @ fmt_d (unat (11 :: u32))) (World srv_nolinks)
     = (Inl (Failure ''Link not found''), []) \<and>
   fst (UpdateLogicalBridge sample_Deps ureq_br1 srv_nolinks)
     = Inl (Errorf NotFound ''unable to find key vni11'') \<and>
   Bridges (snd (UpdateLogicalBridge sample_Deps ureq_br1 srv_nolinks)) = Bridges srv_nolinks"
  using C8_update_requires_live_link
    [where d = sample_Deps and s = srv_nolinks and req = ureq_blue and vrf = vrf_blue
       and e = "Failure ''Link not found''" and w = "[]" and rid = "''blue''"
       and breq = ureq_br1 and bridge = bridge_br1 and vni = 11
       and eb = "Failure ''Link not found''" and wb = "[]"]
  by (simp add: sample_Deps_def srv_one_def srv_nolinks_def vrf_blue_def bridge_br1_def
        ureq_blue_def ureq_br1_def sample_LinkByName_def path_Base_blue fmt_d_11)

subsection \<open>What the VRF handlers do to the store\<close>

lemma UpdateVrf_outcome:
  assumes "validateUpdateVrfRequest d req = None"
    and "map_of (Vrfs s) (Name (UVR_Vrf req)) = Some vrf"
  shows "case fst (UpdateVrf d req s) of
           Inr r \<Rightarrow>
             r = (UVR_Vrf req)\<lparr>Status := Some \<lparr>LocalAs = 4, RoutingTable = 0, Rmac = []\<rparr>\<rparr> \<and>
             Vrfs (snd (UpdateVrf d req s)) = AList.update (Name (UVR_Vrf req)) r (Vrfs s)
         | Inl e \<Rightarrow> Vrfs (snd (UpdateVrf d req s)) = Vrfs s"
  using assms
  by (auto simp: UpdateVrf_def backend_def Let_def split: prod.splits sum.splits option.splits)

lemma GetVrf_Vrfs: "Vrfs (snd (GetVrf d greq s)) = Vrfs s"
  by (auto simp: GetVrf_def backend_def Let_def split: prod.splits sum.splits option.splits)

lemma ListVrfs_Vrfs: "Vrfs (snd (ListVrfs d u lreq s)) = Vrfs s"
  by (auto simp: ListVrfs_def Let_def split: prod.splits sum.splits option.splits)

lemma CreateVrf_existing:
  assumes "validateCreateVrfRequest d creq = None"
    and "map_of (Vrfs s)
           (resourceIDToFullName ''vrfs'' (if VrfId creq \<noteq> [] then VrfId creq else g)) = Some obj"
  shows "CreateVrf d g m creq s = (Inr obj, s)"
  using assms by (simp add: CreateVrf_def Let_def)

lemma CreateVrf_existing_Vrfs:
  assumes "map_of (Vrfs s)
           (resourceIDToFullName ''vrfs'' (if VrfId creq \<noteq> [] then VrfId creq else g)) = Some obj"
  shows "Vrfs (snd (CreateVrf d g m creq s)) = Vrfs s"
  using assms
  by (cases "VrfId creq = []") (simp_all add: CreateVrf_def Let_def split: option.splits)

lemma CreateVrf_new:
  assumes "map_of (Vrfs s)
           (resourceIDToFullName ''vrfs'' (if VrfId creq \<noteq> [] then VrfId creq else g)) = None"
    and "fst (CreateVrf d g m creq s) = Inr r"
  shows "\<exists>mac. m = Inr mac \<and>
           r = (Vrf creq)\<lparr>Name := resourceIDToFullName ''vrfs''
                                 (if VrfId creq \<noteq> [] then VrfId creq else g),
                         Status := Some \<lparr>LocalAs = 4,
                                         RoutingTable = tableID_of (Vni (Spec (Vrf creq))),
                                         Rmac = mac\<rparr>\<rparr> \<and>
           Vrfs (snd (CreateVrf d g m creq s)) = AList.update (Name r) r (Vrfs s)"
  using assms
  by (auto simp: CreateVrf_def backend_def Let_def split: prod.splits sum.splits option.splits if_splits)

lemma CreateVrf_blue:
  "CreateVrf sample_Deps g (Inr sample_mac) creq_blue srv_empty = (Inr vrf_blue, srv_blue)"
  by (simp add: CreateVrf_def backend_def Let_def sample_Deps_def creq_blue_def srv_empty_def
        srv_blue_def vrf_blue_def creq_blue_named_def resourceIDToFullName_def
        tableID_of_Some path_Base_blue)

subsection \<open>The rmac of a VRF\<close>

lemma UpdateVrf_blue:
  "UpdateVrf sample_Deps ureq_blue srv_blue =
     (Inr \<lparr>Name = ''vrfs/blue'', Spec = \<lparr>Vni = Some 12\<rparr>,
           Status = Some \<lparr>LocalAs = 4, RoutingTable = 0, Rmac = []\<rparr>\<rparr>,
      srv_blue\<lparr>Vrfs := [(''vrfs/blue'',
                 \<lparr>Name = ''vrfs/blue'', Spec = \<lparr>Vni = Some 12\<rparr>,
                  Status = Some \<lparr>LocalAs = 4, RoutingTable = 0, Rmac = []\<rparr>\<rparr>)],
               Calls := Calls srv_blue @ [Call_LinkByName ''blue'', Call_LinkModify (Link ''blue'')]\<rparr>)"
  by (simp add: UpdateVrf_def backend_def Let_def sample_Deps_def ureq_blue_def
        srv_blue_def vrf_blue_def sample_LinkByName_def path_Base_blue)

text \<open>
  Claim C3 says that a successful \<open>UpdateVrf\<close> leaves the stored rmac as assigned at
  creation. It does not: on the server that \<open>CreateVrf\<close> built from the empty one
  (stored rmac \<open>sample_mac\<close>), a successful \<open>UpdateVrf\<close> of the same name stores a status
  whose rmac is empty.
\<close>

theorem C3_update_drops_rmac_counterexample:
  "CreateVrf sample_Deps ''6ba7b810'' (Inr sample_mac) creq_blue srv_empty = (Inr vrf_blue, srv_blue) \<and>
   map_option Status (map_of (Vrfs srv_blue) ''vrfs/blue'')
     = Some (Some \<lparr>LocalAs = 4, RoutingTable = 1003, Rmac = sample_mac\<rparr>) \<and>
   fst (UpdateVrf sample_Deps ureq_blue srv_blue)
     = Inr \<lparr>Name = ''vrfs/blue'', Spec = \<lparr>Vni = Some 12\<rparr>,
            Status = Some \<lparr>LocalAs = 4, RoutingTable = 0, Rmac = []\<rparr>\<rparr> \<and>
   map_option Status (map_of (Vrfs (snd (UpdateVrf sample_Deps ureq_blue srv_blue))) ''vrfs/blue'')
     = Some (Some \<lparr>LocalAs = 4, RoutingTable = 0, Rmac = []\<rparr>) \<and>
   sample_mac \<noteq> []"
  by (simp add: CreateVrf_blue UpdateVrf_blue)
     (simp add: srv_blue_def vrf_blue_def sample_mac_def)

text \<open>
Claim C3, as amended. The rmac of a VRF is generated in one place, \<open>CreateVrf\<close> on a
  name that is not yet stored, which stores it with the new object. No later handler
  generates another one, but a successful \<open>UpdateVrf\<close> does not keep it either: it
  stores the request's VRF with the fixed status \<open>{LocalAs: 4}\<close>, whose routing table is
  0 and whose rmac is empty. A failed \<open>UpdateVrf\<close>, \<open>GetVrf\<close>, \<open>ListVrfs\<close> and a
  \<open>CreateVrf\<close> on a name that is already stored leave the VRF store as it is.
\<close>

theorem C3_rmac_set_at_creation_dropped_by_update:
  "(map_of (Vrfs s)
      (resourceIDToFullName ''vrfs'' (if VrfId creq \<noteq> [] then VrfId creq else g)) = None \<and>
    fst (CreateVrf d g m creq s) = Inr r \<longrightarrow>
      (\<exists>mac. m = Inr mac \<and> map_option Rmac (Status r) = Some mac \<and>
         map_of (Vrfs (snd (CreateVrf d g m creq s))) (Name r) = Some r)) \<and>
   (validateUpdateVrfRequest d req = None \<and>
    map_of (Vrfs s) (Name (UVR_Vrf req)) = Some vrf \<longrightarrow>
      (case fst (UpdateVrf d req s) of
         Inr u \<Rightarrow>
           Status u = Some \<lparr>LocalAs = 4, RoutingTable = 0, Rmac = []\<rparr> \<and>
           map_of (Vrfs (snd (UpdateVrf d req s))) (Name (UVR_Vrf req)) = Some u
       | Inl e \<Rightarrow> Vrfs (snd (UpdateVrf d req s)) = Vrfs s)) \<and>
   Vrfs (snd (GetVrf d greq s)) = Vrfs s \<and>
   Vrfs (snd (ListVrfs d tok lreq s)) = Vrfs s \<and>
   (map_of (Vrfs s)
      (resourceIDToFullName ''vrfs'' (if VrfId creq \<noteq> [] then VrfId creq else g)) = Some vrf \<longrightarrow>
      Vrfs (snd (CreateVrf d g m creq s)) = Vrfs s)"
proof (intro conjI impI)
  assume a: "map_of (Vrfs s)
      (resourceIDToFullName ''vrfs'' (if VrfId creq \<noteq> [] then VrfId creq else g)) = None \<and>
    fst (CreateVrf d g m creq s) = Inr r"
  then have a1: "map_of (Vrfs s)
      (resourceIDToFullName ''vrfs'' (if VrfId creq \<noteq> [] then VrfId creq else g)) = None"
    and a2: "fst (CreateVrf d g m creq s) = Inr r" by simp_all
  from CreateVrf_new [OF a1 a2]
  obtain mac where m: "m = Inr mac"
    and r: "r = (Vrf creq)\<lparr>Name := resourceIDToFullName ''vrfs''
                                 (if VrfId creq \<noteq> [] then VrfId creq else g),
                         Status := Some \<lparr>LocalAs = 4,
                                         RoutingTable = tableID_of (Vni (Spec (Vrf creq))),
                                         Rmac = mac\<rparr>\<rparr>"
    and v: "Vrfs (snd (CreateVrf d g m creq s)) = AList.update (Name r) r (Vrfs s)"
    by blast
  have "map_option Rmac (Status r) = Some mac" by (simp add: r)
  moreover have "map_of (Vrfs (snd (CreateVrf d g m creq s))) (Name r) = Some r"
    by (simp only: v update_conv') simp
  ultimately show "\<exists>mac. m = Inr mac \<and> map_option Rmac (Status r) = Some mac \<and>
         map_of (Vrfs (snd (CreateVrf d g m creq s))) (Name r) = Some r"
    using m by blast
next
  assume a: "validateUpdateVrfRequest d req = None \<and>
    map_of (Vrfs s) (Name (UVR_Vrf req)) = Some vrf"
  with UpdateVrf_outcome [of d req s vrf]
  show "case fst (UpdateVrf d req s) of
         Inr u \<Rightarrow>
           Status u = Some \<lparr>LocalAs = 4, RoutingTable = 0, Rmac = []\<rparr> \<and>
           map_of (Vrfs (snd (UpdateVrf d req s))) (Name (UVR_Vrf req)) = Some u
       | Inl e \<Rightarrow> Vrfs (snd (UpdateVrf d req s)) = Vrfs s"
    by (auto split: sum.splits simp: update_conv')
next
  show "Vrfs (snd (GetVrf d greq s)) = Vrfs s" by (rule GetVrf_Vrfs)
next
  show "Vrfs (snd (ListVrfs d tok lreq s)) = Vrfs s" by (rule ListVrfs_Vrfs)
next
  assume "map_of (Vrfs s)
      (resourceIDToFullName ''vrfs'' (if VrfId creq \<noteq> [] then VrfId creq else g)) = Some vrf"
  then show "Vrfs (snd (CreateVrf d g m creq s)) = Vrfs s" by (rule CreateVrf_existing_Vrfs)
qed

theorem C3_rmac_set_at_creation_dropped_by_update_witness:
  "map_of (Vrfs srv_empty) (resourceIDToFullName ''vrfs'' ''blue'') = None \<and>
   fst (CreateVrf sample_Deps ''6ba7b810'' (Inr sample_mac) creq_blue srv_empty) = Inr vrf_blue \<and>
   map_option Rmac (Status vrf_blue) = Some sample_mac \<and>
   validateUpdateVrfRequest sample_Deps ureq_blue = None \<and>
   map_of (Vrfs srv_blue) (Name (UVR_Vrf ureq_blue)) = Some vrf_blue \<and>
   fst (UpdateVrf sample_Deps ureq_blue srv_blue)
     = Inr \<lparr>Name = ''vrfs/blue'', Spec = \<lparr>Vni = Some 12\<rparr>,
            Status = Some \<lparr>LocalAs = 4, RoutingTable = 0, Rmac = []\<rparr>\<rparr> \<and>
   map_of (Vrfs (snd (UpdateVrf sample_Deps ureq_blue srv_blue))) ''vrfs/blue''
     = Some \<lparr>Name = ''vrfs/blue'', Spec = \<lparr>Vni = Some 12\<rparr>,
             Status = Some \<lparr>LocalAs = 4, RoutingTable = 0, Rmac = []\<rparr>\<rparr> \<and>
   map_of (Vrfs srv_blue) (resourceIDToFullName ''vrfs'' ''blue'') = Some vrf_blue \<and>
   Vrfs (snd (CreateVrf sample_Deps ''6ba7b810'' (Inr [0x02, 0, 0, 0, 0, 0x07]) creq_blue srv_blue))
     = Vrfs srv_blue"
  using C3_rmac_set_at_creation_dropped_by_update
    [where d = sample_Deps and s = srv_empty and creq = creq_blue and g = "''6ba7b810''"
       and m = "Inr sample_mac" and r = vrf_blue and req = ureq_blue]
    C3_rmac_set_at_creation_dropped_by_update
    [where d = sample_Deps and s = srv_blue and creq = creq_blue and g = "''6ba7b810''"
       and m = "Inr [0x02, 0, 0, 0, 0, 0x07]" and req = ureq_blue and vrf = vrf_blue]
  by (simp add: CreateVrf_blue UpdateVrf_blue)
     (simp add: srv_blue_def srv_empty_def vrf_blue_def creq_blue_def ureq_blue_def
        sample_Deps_def resourceIDToFullName_def)

subsection \<open>Create\<close>

lemma CreateVrf_stored:
  assumes "CreateVrf d g m creq s = (Inr r, st)"
  shows "map_of (Vrfs st)
           (resourceIDToFullName ''vrfs'' (if VrfId creq \<noteq> [] then VrfId creq else g)) = Some r"
  using assms
  by (cases "VrfId creq = []")
     (auto simp: CreateVrf_def backend_def Let_def update_conv'
           split: prod.splits sum.splits option.splits)

lemma CreateLogicalBridge_existing:
  assumes "validateCreateLogicalBridgeRequest d breq = None"
    and "map_of (Bridges s)
           (resourceIDToFullName ''bridges''
              (if LogicalBridgeId breq \<noteq> [] then LogicalBridgeId breq else g)) = Some bobj"
  shows "CreateLogicalBridge d g breq s = (Inr bobj, s)"
  using assms by (simp add: CreateLogicalBridge_def Let_def)

lemma CreateLogicalBridge_stored:
  assumes "CreateLogicalBridge d g breq s = (Inr r, st)"
  shows "map_of (Bridges st)
           (resourceIDToFullName ''bridges''
              (if LogicalBridgeId breq \<noteq> [] then LogicalBridgeId breq else g)) = Some r"
  using assms
  by (cases "LogicalBridgeId breq = []")
     (auto simp: CreateLogicalBridge_def backend_def Let_def update_conv'
           split: prod.splits sum.splits option.splits)

text \<open>
Claim C1. For both kinds: when a create request has passed validation and an object
  is already stored under the derived full name (the collection and the
  caller-supplied id, or the generated id when the caller gave none), the call returns
  exactly the stored object and the server state after the call is the state before
  it: no store change, no adapter call logged, backend untouched. In particular, after
  a successful create with a caller-supplied id, a second create with the same id
  (whatever its spec and its random draws) returns the very object the first call
  returned, with the same name, spec and status, the same random MAC included.
\<close>

theorem C1_create_is_idempotent:
  "(validateCreateVrfRequest d creq = None \<and>
    map_of (Vrfs s)
      (resourceIDToFullName ''vrfs'' (if VrfId creq \<noteq> [] then VrfId creq else g)) = Some obj \<longrightarrow>
      CreateVrf d g m creq s = (Inr obj, s)) \<and>
   (validateCreateLogicalBridgeRequest d breq = None \<and>
    map_of (Bridges s)
      (resourceIDToFullName ''bridges''
         (if LogicalBridgeId breq \<noteq> [] then LogicalBridgeId breq else g)) = Some bobj \<longrightarrow>
      CreateLogicalBridge d g breq s = (Inr bobj, s)) \<and>
   (CreateVrf d g m creq s = (Inr r, st) \<and> VrfId creq \<noteq> [] \<and>
    VrfId creq' = VrfId creq \<and> validateCreateVrfRequest d creq' = None \<longrightarrow>
      CreateVrf d g' m' creq' st = (Inr r, st)) \<and>
   (CreateLogicalBridge d g breq s = (Inr rb, stb) \<and> LogicalBridgeId breq \<noteq> [] \<and>
    LogicalBridgeId breq' = LogicalBridgeId breq \<and>
    validateCreateLogicalBridgeRequest d breq' = None \<longrightarrow>
      CreateLogicalBridge d g' breq' stb = (Inr rb, stb))"
proof (intro conjI impI)
  assume "validateCreateVrfRequest d creq = None \<and>
    map_of (Vrfs s)
      (resourceIDToFullName ''vrfs'' (if VrfId creq \<noteq> [] then VrfId creq else g)) = Some obj"
  then show "CreateVrf d g m creq s = (Inr obj, s)"
    by (simp add: CreateVrf_existing)
next
  assume "validateCreateLogicalBridgeRequest d breq = None \<and>
    map_of (Bridges s)
      (resourceIDToFullName ''bridges''
         (if LogicalBridgeId breq \<noteq> [] then LogicalBridgeId breq else g)) = Some bobj"
  then show "CreateLogicalBridge d g breq s = (Inr bobj, s)"
    by (simp add: CreateLogicalBridge_existing)
next
  assume a: "CreateVrf d g m creq s = (Inr r, st) \<and> VrfId creq \<noteq> [] \<and>
    VrfId creq' = VrfId creq \<and> validateCreateVrfRequest d creq' = None"
  then have "map_of (Vrfs st) (resourceIDToFullName ''vrfs'' (VrfId creq)) = Some r"
    using CreateVrf_stored [of d g m creq s r st] by simp
  with a show "CreateVrf d g' m' creq' st = (Inr r, st)"
    by (simp add: CreateVrf_existing)
next
  assume a: "CreateLogicalBridge d g breq s = (Inr rb, stb) \<and> LogicalBridgeId breq \<noteq> [] \<and>
    LogicalBridgeId breq' = LogicalBridgeId breq \<and>
    validateCreateLogicalBridgeRequest d breq' = None"
  then have "map_of (Bridges stb) (resourceIDToFullName ''bridges'' (LogicalBridgeId breq)) = Some rb"
    using CreateLogicalBridge_stored [of d g breq s rb stb] by simp
  with a show "CreateLogicalBridge d g' breq' stb = (Inr rb, stb)"
    by (simp add: CreateLogicalBridge_existing)
qed

lemma CreateLogicalBridge_br1:
  "CreateLogicalBridge sample_Deps g creq_br1 srv_empty = (Inr bridge_br1, srv_br1)"
  by (simp add: CreateLogicalBridge_def backend_def Let_def sample_Deps_def creq_br1_def
        srv_empty_def srv_br1_def bridge_br1_def creq_br1_named_def resourceIDToFullName_def
        sample_bridge_links_def fmt_d_11)

theorem C1_create_is_idempotent_witness:
  "validateCreateVrfRequest sample_Deps creq_blue = None \<and>
   map_of (Vrfs srv_one) (resourceIDToFullName ''vrfs'' ''blue'') = Some vrf_blue \<and>
   CreateVrf sample_Deps ''6ba7b810'' (Inr [0x02, 0, 0, 0, 0, 0x07]) creq_blue srv_one
     = (Inr vrf_blue, srv_one) \<and>
   validateCreateLogicalBridgeRequest sample_Deps creq_br1 = None \<and>
   map_of (Bridges srv_one) (resourceIDToFullName ''bridges'' ''br1'') = Some bridge_br1 \<and>
   CreateLogicalBridge sample_Deps ''6ba7b810'' creq_br1 srv_one = (Inr bridge_br1, srv_one) \<and>
   CreateVrf sample_Deps ''6ba7b810'' (Inr sample_mac) creq_blue srv_empty
     = (Inr vrf_blue, srv_blue) \<and>
   VrfId creq_blue \<noteq> [] \<and>
   CreateVrf sample_Deps ''6ba7b811'' (Inr [0x02, 0, 0, 0, 0, 0x07])
       (creq_blue\<lparr>Vrf := (Vrf creq_blue)\<lparr>Spec := \<lparr>Vni = Some 5\<rparr>\<rparr>\<rparr>) srv_blue
     = (Inr vrf_blue, srv_blue) \<and>
   CreateLogicalBridge sample_Deps ''6ba7b810'' creq_br1 srv_empty = (Inr bridge_br1, srv_br1) \<and>
   LogicalBridgeId creq_br1 \<noteq> [] \<and>
   CreateLogicalBridge sample_Deps ''6ba7b811'' creq_br1 srv_br1 = (Inr bridge_br1, srv_br1)"
  using C1_create_is_idempotent
    [where d = sample_Deps and s = srv_one and creq = creq_blue and g = "''6ba7b810''"
       and m = "Inr [0x02, 0, 0, 0, 0, 0x07]" and obj = vrf_blue
       and breq = creq_br1 and bobj = bridge_br1
       and r = vrf_blue and st = srv_one and creq' = creq_blue and g' = "''6ba7b811''"
       and m' = "Inr sample_mac" and rb = bridge_br1 and stb = srv_one and breq' = creq_br1]
    C1_create_is_idempotent
    [where d = sample_Deps and s = srv_empty and creq = creq_blue and g = "''6ba7b810''"
       and m = "Inr sample_mac" and r = vrf_blue and st = srv_blue
       and creq' = "creq_blue\<lparr>Vrf := (Vrf creq_blue)\<lparr>Spec := \<lparr>Vni = Some 5\<rparr>\<rparr>\<rparr>"
       and g' = "''6ba7b811''" and m' = "Inr [0x02, 0, 0, 0, 0, 0x07]"
       and breq = creq_br1 and rb = bridge_br1 and stb = srv_br1 and breq' = creq_br1
       and obj = vrf_blue and bobj = bridge_br1]
  by (simp add: CreateVrf_blue CreateLogicalBridge_br1)
     (simp add: srv_one_def creq_blue_def creq_br1_def sample_Deps_def resourceIDToFullName_def)

subsection \<open>The routing table of a VRF\<close>

lemma unat_tableID_of:
  "unat (tableID_of vni) = (case vni of None \<Rightarrow> 1000 | Some v \<Rightarrow> 1001 + unat v mod 10)"
proof (cases vni)
  case None
  then show ?thesis by (simp add: tableID_of_None)
next
  case (Some v)
  have "1001 + unat v mod 10 < 2 ^ LENGTH(32)"
    using mod_less_divisor [of 10 "unat v"] by simp
  then have "unat (word_of_nat (1001 + unat v mod 10) :: u32) = 1001 + unat v mod 10"
    by (rule of_nat_inverse [OF refl])
  with Some show ?thesis by (simp only: tableID_of_Some option.case)
qed

text \<open>
  Claim C2 speaks of every successful \<open>CreateVrf\<close>. A replayed create is successful
  too, and its routing table is the stored one, not the one of the request's VNI: on
  the server holding \<open>vrfs/blue\<close> (created with VNI 12, table 1003), a create with the
  id \<open>blue\<close> and VNI 5 succeeds and returns table 1003, not \<open>1001 + 5 mod 10 = 1006\<close>.
\<close>

theorem C2_replayed_create_keeps_table_counterexample:
  "validateCreateVrfRequest sample_Deps
     (creq_blue\<lparr>Vrf := (Vrf creq_blue)\<lparr>Spec := \<lparr>Vni = Some 5\<rparr>\<rparr>\<rparr>) = None \<and>
   Vni (Spec (Vrf (creq_blue\<lparr>Vrf := (Vrf creq_blue)\<lparr>Spec := \<lparr>Vni = Some 5\<rparr>\<rparr>\<rparr>))) = Some 5 \<and>
   fst (CreateVrf sample_Deps ''6ba7b811'' (Inr sample_mac)
          (creq_blue\<lparr>Vrf := (Vrf creq_blue)\<lparr>Spec := \<lparr>Vni = Some 5\<rparr>\<rparr>\<rparr>) srv_blue)
     = Inr vrf_blue \<and>
   map_option Status (map_of (Vrfs (snd (CreateVrf sample_Deps ''6ba7b811'' (Inr sample_mac)
          (creq_blue\<lparr>Vrf := (Vrf creq_blue)\<lparr>Spec := \<lparr>Vni = Some 5\<rparr>\<rparr>\<rparr>) srv_blue))) ''vrfs/blue'')
     = Some (Status vrf_blue) \<and>
   map_option (unat \<circ> RoutingTable) (Status vrf_blue) = Some 1003 \<and>
   (1003 :: nat) \<noteq> 1001 + unat (5 :: u32) mod 10"
  by (simp add: CreateVrf_def Let_def sample_Deps_def creq_blue_def srv_blue_def
        vrf_blue_def resourceIDToFullName_def)

text \<open>
Claim C2, as amended. A successful \<open>CreateVrf\<close> that finds no object under the derived
  name returns, and stores under that name, a status whose routing table is
  \<open>1001 + (vni mod 10)\<close> when the request's VNI is set (for every \<open>uint32\<close> VNI, the 24-bit
  ones included) and 1000 when it is absent. A \<open>CreateVrf\<close> that finds an object under
  the derived name returns that object, with the routing table it was stored with, and
  leaves the store unchanged.
\<close>

theorem C2_routing_table_of_new_vrf:
  "(validateCreateVrfRequest d creq = None \<and>
    map_of (Vrfs s)
      (resourceIDToFullName ''vrfs'' (if VrfId creq \<noteq> [] then VrfId creq else g)) = None \<and>
    fst (CreateVrf d g m creq s) = Inr r \<longrightarrow>
      map_option (unat \<circ> RoutingTable) (Status r)
        = Some (case Vni (Spec (Vrf creq)) of None \<Rightarrow> 1000 | Some v \<Rightarrow> 1001 + unat v mod 10) \<and>
      map_of (Vrfs (snd (CreateVrf d g m creq s))) (Name r) = Some r) \<and>
   (validateCreateVrfRequest d creq = None \<and>
    map_of (Vrfs s)
      (resourceIDToFullName ''vrfs'' (if VrfId creq \<noteq> [] then VrfId creq else g)) = Some obj \<longrightarrow>
      fst (CreateVrf d g m creq s) = Inr obj \<and>
      Vrfs (snd (CreateVrf d g m creq s)) = Vrfs s)"
proof (intro conjI impI)
  assume a: "validateCreateVrfRequest d creq = None \<and>
    map_of (Vrfs s)
      (resourceIDToFullName ''vrfs'' (if VrfId creq \<noteq> [] then VrfId creq else g)) = None \<and>
    fst (CreateVrf d g m creq s) = Inr r"
  then have a1: "map_of (Vrfs s)
      (resourceIDToFullName ''vrfs'' (if VrfId creq \<noteq> [] then VrfId creq else g)) = None"
    and a2: "fst (CreateVrf d g m creq s) = Inr r" by simp_all
  from CreateVrf_new [OF a1 a2]
  obtain mac where r: "r = (Vrf creq)\<lparr>Name := resourceIDToFullName ''vrfs''
                                 (if VrfId creq \<noteq> [] then VrfId creq else g),
                         Status := Some \<lparr>LocalAs = 4,
                                         RoutingTable = tableID_of (Vni (Spec (Vrf creq))),
                                         Rmac = mac\<rparr>\<rparr>"
    and v: "Vrfs (snd (CreateVrf d g m creq s)) = AList.update (Name r) r (Vrfs s)"
    by blast
  show "map_option (unat \<circ> RoutingTable) (Status r)
        = Some (case Vni (Spec (Vrf creq)) of None \<Rightarrow> 1000 | Some v \<Rightarrow> 1001 + unat v mod 10)"
    by (simp add: r unat_tableID_of)
  show "map_of (Vrfs (snd (CreateVrf d g m creq s))) (Name r) = Some r"
    by (simp only: v update_conv') simp
next
  assume a: "validateCreateVrfRequest d creq = None \<and>
    map_of (Vrfs s)
      (resourceIDToFullName ''vrfs'' (if VrfId creq \<noteq> [] then VrfId creq else g)) = Some obj"
  then have "CreateVrf d g m creq s = (Inr obj, s)" by (simp add: CreateVrf_existing)
  then show "fst (CreateVrf d g m creq s) = Inr obj" and "Vrfs (snd (CreateVrf d g m creq s)) = Vrfs s"
    by simp_all
qed

theorem C2_routing_table_of_new_vrf_witness:
  "validateCreateVrfRequest sample_Deps creq_blue = None \<and>
   map_of (Vrfs srv_empty) (resourceIDToFullName ''vrfs'' ''blue'') = None \<and>
   Vni (Spec (Vrf creq_blue)) = Some 12 \<and>
   fst (CreateVrf sample_Deps ''6ba7b810'' (Inr sample_mac) creq_blue srv_empty) = Inr vrf_blue \<and>
   map_option (unat \<circ> RoutingTable) (Status vrf_blue) = Some 1003 \<and>
   map_of (Vrfs (snd (CreateVrf sample_Deps ''6ba7b810'' (Inr sample_mac) creq_blue srv_empty)))
     ''vrfs/blue'' = Some vrf_blue \<and>
   validateCreateVrfRequest sample_Deps
     (creq_blue\<lparr>VrfId := ''red'', Vrf := (Vrf creq_blue)\<lparr>Spec := \<lparr>Vni = None\<rparr>\<rparr>\<rparr>) = None \<and>
   map_of (Vrfs srv_blue) (resourceIDToFullName ''vrfs'' ''red'') = None \<and>
   map_option (unat \<circ> RoutingTable) (map_option the (map_option Status (map_of (Vrfs (snd
      (CreateVrf sample_Deps ''6ba7b811'' (Inr sample_mac)
         (creq_blue\<lparr>VrfId := ''red'', Vrf := (Vrf creq_blue)\<lparr>Spec := \<lparr>Vni = None\<rparr>\<rparr>\<rparr>) srv_blue)))
      ''vrfs/red''))) = Some 1000 \<and>
   map_of (Vrfs srv_blue) (resourceIDToFullName ''vrfs'' ''blue'') = Some vrf_blue \<and>
   fst (CreateVrf sample_Deps ''6ba7b811'' (Inr sample_mac) creq_blue srv_blue) = Inr vrf_blue"
  using C2_routing_table_of_new_vrf
    [where d = sample_Deps and s = srv_empty and creq = creq_blue and g = "''6ba7b810''"
       and m = "Inr sample_mac" and r = vrf_blue and obj = vrf_blue]
    C2_routing_table_of_new_vrf
    [where d = sample_Deps and s = srv_blue and g = "''6ba7b811''" and m = "Inr sample_mac"
       and creq = "creq_blue\<lparr>VrfId := ''red'', Vrf := (Vrf creq_blue)\<lparr>Spec := \<lparr>Vni = None\<rparr>\<rparr>\<rparr>"
       and r = "\<lparr>Name = ''vrfs/red'', Spec = \<lparr>Vni = None\<rparr>,
                Status = Some \<lparr>LocalAs = 4, RoutingTable = 1000, Rmac = sample_mac\<rparr>\<rparr>"
       and obj = vrf_blue]
    C2_routing_table_of_new_vrf
    [where d = sample_Deps and s = srv_blue and creq = creq_blue and g = "''6ba7b811''"
       and m = "Inr sample_mac" and r = vrf_blue and obj = vrf_blue]
  by (simp add: CreateVrf_blue)
     (simp add: CreateVrf_def backend_def Let_def srv_blue_def srv_empty_def vrf_blue_def
        creq_blue_def sample_Deps_def resourceIDToFullName_def tableID_of_None)

subsection \<open>The local AS of a VRF\<close>

lemma GetVrf_LocalAs:
  assumes "fst (GetVrf d greq s) = Inr r"
  shows "map_option LocalAs (Status r) = Some 77"
  using assms
  by (auto simp: GetVrf_def backend_def Let_def split: prod.splits sum.splits option.splits)

lemma UpdateVrf_LocalAs:
  assumes "fst (UpdateVrf d req s) = Inr r"
  shows "map_option LocalAs (Status r) = Some 4"
  using assms
  by (auto simp: UpdateVrf_def backend_def Let_def split: prod.splits sum.splits option.splits)

lemma limitPagination_Some:
  assumes "limitPagination xs offset sz = Some (page, hm)"
  shows "0 \<le> offset"
    and "hm = (offset + sz < int (length xs))"
    and "page = take (nat ((if hm then offset + sz else int (length xs)) - offset))
                  (drop (nat offset) xs)"
  using assms by (auto simp: limitPagination_def Let_def split: if_splits)

lemma limitPagination_subset:
  assumes "limitPagination xs offset sz = Some (page, hm)"
  shows "set page \<subseteq> set xs"
proof -
  have "set (take n (drop k xs)) \<subseteq> set xs" for n k
    using set_take_subset [of n "drop k xs"] set_drop_subset [of k xs] by blast
  with limitPagination_Some(3) [OF assms] show ?thesis by simp
qed

lemma ListVrfs_LocalAs:
  assumes "fst (ListVrfs d tok lreq s) = Inr resp" and "v \<in> set (Vrfs_out resp)"
  shows "map_option LocalAs (Status v) = Some 4"
proof -
  let ?B = "map (\<lambda>(k, vrf). vrf\<lparr>Status := Some \<lparr>LocalAs = 4, RoutingTable = 0, Rmac = []\<rparr>\<rparr>) (Vrfs s)"
  from assms(1) obtain sz offset hm where
    "limitPagination (sortVrfs ?B) offset sz = Some (Vrfs_out resp, hm)"
    by (auto simp: ListVrfs_def Let_def split: prod.splits sum.splits option.splits if_splits)
  then have "set (Vrfs_out resp) \<subseteq> set (sortVrfs ?B)"
    by (rule limitPagination_subset)
  with assms(2) have "v \<in> set ?B" by (auto simp: sortVrfs_def)
  then show ?thesis by auto
qed

lemma GetVrf_blue:
  "GetVrf sample_Deps \<lparr>GVR_Name = ''vrfs/blue''\<rparr> srv_blue =
     (Inr \<lparr>Name = ''vrfs/blue'', Spec = \<lparr>Vni = Some 12\<rparr>,
           Status = Some \<lparr>LocalAs = 77, RoutingTable = 0, Rmac = []\<rparr>\<rparr>,
      srv_blue\<lparr>Calls := Calls srv_blue @ [Call_LinkByName ''blue'']\<rparr>)"
  by (simp add: GetVrf_def backend_def Let_def sample_Deps_def
        srv_blue_def vrf_blue_def sample_LinkByName_def path_Base_blue)

text \<open>
Claim C6 says that every operation reports the same \<open>localAs\<close>. The code does not do
  that: \<open>CreateVrf\<close>, \<open>UpdateVrf\<close> and \<open>ListVrfs\<close> report 4 (lemmas
  \<open>UpdateVrf_LocalAs\<close>, \<open>ListVrfs_LocalAs\<close>), and every successful \<open>GetVrf\<close> reports 77
  (lemma \<open>GetVrf_LocalAs\<close>). On the server that \<open>CreateVrf\<close> built from the empty one,
  the create and an update answer 4 and a get of the same VRF answers 77.
\<close>

theorem C6_get_reports_another_localAs:
  "fst (CreateVrf sample_Deps ''6ba7b810'' (Inr sample_mac) creq_blue srv_empty) = Inr vrf_blue \<and>
   snd (CreateVrf sample_Deps ''6ba7b810'' (Inr sample_mac) creq_blue srv_empty) = srv_blue \<and>
   map_option LocalAs (Status vrf_blue) = Some 4 \<and>
   fst (GetVrf sample_Deps \<lparr>GVR_Name = ''vrfs/blue''\<rparr> srv_blue)
     = Inr \<lparr>Name = ''vrfs/blue'', Spec = \<lparr>Vni = Some 12\<rparr>,
            Status = Some \<lparr>LocalAs = 77, RoutingTable = 0, Rmac = []\<rparr>\<rparr> \<and>
   fst (UpdateVrf sample_Deps ureq_blue srv_blue)
     = Inr \<lparr>Name = ''vrfs/blue'', Spec = \<lparr>Vni = Some 12\<rparr>,
            Status = Some \<lparr>LocalAs = 4, RoutingTable = 0, Rmac = []\<rparr>\<rparr>"
  by (simp add: CreateVrf_blue GetVrf_blue UpdateVrf_blue) (simp add: vrf_blue_def)

subsection \<open>Bridge-port validation\<close>

lemma validateCreateBridgePortRequest_access_many:
  assumes "Ptype (BP_Spec (BridgePort preq)) = ACCESS"
    and "1 < length (LogicalBridges (BP_Spec (BridgePort preq)))"
  shows "validateCreateBridgePortRequest d preq =
           (case ValidateRequiredFields_BridgePort d preq of
              Some e \<Rightarrow> Some e
            | None \<Rightarrow> Some (Errorf InvalidArgument
                (''ACCESS type must have single LogicalBridge and not ('' @
                 fmt_d (length (LogicalBridges (BP_Spec (BridgePort preq)))) @ '')'')))"
  using assms by (simp add: validateCreateBridgePortRequest_def Let_def split: option.splits)

lemma validateCreateBridgePortRequest_few:
  assumes "length (LogicalBridges (BP_Spec (BridgePort preq))) \<le> 1"
    and "ValidateRequiredFields_BridgePort d preq = None"
  shows "validateCreateBridgePortRequest d preq =
           (if BridgePortId preq \<noteq> [] then ValidateUserSettable d (BridgePortId preq) else None)"
  using assms by (simp add: validateCreateBridgePortRequest_def Let_def split: option.splits)

text \<open>
Claim C9. \<open>validateCreateBridgePortRequest\<close> rejects every request whose port type is
  ACCESS and whose list of logical bridges has more than one element: the validation
  never passes, and once the required-field check of the library has passed the error
  is \<open>InvalidArgument\<close> (before that, it is the library's error). For an ACCESS request
  with at most one logical bridge the cardinality check passes: the result is the
  result of the identifier check alone, and the request is valid when that passes or
  no identifier is given.
\<close>

theorem C9_access_port_cardinality:
  "(Ptype (BP_Spec (BridgePort preq)) = ACCESS \<and>
    1 < length (LogicalBridges (BP_Spec (BridgePort preq))) \<longrightarrow>
      validateCreateBridgePortRequest d preq \<noteq> None \<and>
      (ValidateRequiredFields_BridgePort d preq = None \<longrightarrow>
         validateCreateBridgePortRequest d preq =
           Some (Errorf InvalidArgument
             (''ACCESS type must have single LogicalBridge and not ('' @
              fmt_d (length (LogicalBridges (BP_Spec (BridgePort preq)))) @ '')'')))) \<and>
   (Ptype (BP_Spec (BridgePort preq)) = ACCESS \<and>
    length (LogicalBridges (BP_Spec (BridgePort preq))) \<le> 1 \<and>
    ValidateRequiredFields_BridgePort d preq = None \<longrightarrow>
      validateCreateBridgePortRequest d preq =
        (if BridgePortId preq \<noteq> [] then ValidateUserSettable d (BridgePortId preq) else None))"
  by (auto simp: validateCreateBridgePortRequest_access_many validateCreateBridgePortRequest_few
           split: option.splits)

lemma fmt_d_2: "fmt_d (Suc (Suc 0)) = ''2''" by code_simp

theorem C9_access_port_cardinality_witness:
  "Ptype (BP_Spec (BridgePort
     \<lparr>BridgePortId = ''port1'',
      BridgePort = \<lparr>BP_Name = [],
        BP_Spec = \<lparr>Ptype = ACCESS, LogicalBridges = [''bridges/a'', ''bridges/b'']\<rparr>\<rparr>\<rparr>)) = ACCESS \<and>
   ValidateRequiredFields_BridgePort sample_Deps
     \<lparr>BridgePortId = ''port1'',
      BridgePort = \<lparr>BP_Name = [],
        BP_Spec = \<lparr>Ptype = ACCESS, LogicalBridges = [''bridges/a'', ''bridges/b'']\<rparr>\<rparr>\<rparr> = None \<and>
   validateCreateBridgePortRequest sample_Deps
     \<lparr>BridgePortId = ''port1'',
      BridgePort = \<lparr>BP_Name = [],
        BP_Spec = \<lparr>Ptype = ACCESS, LogicalBridges = [''bridges/a'', ''bridges/b'']\<rparr>\<rparr>\<rparr>
     = Some (Errorf InvalidArgument ''ACCESS type must have single LogicalBridge and not (2)'') \<and>
   ValidateRequiredFields_BridgePort sample_Deps
     \<lparr>BridgePortId = ''port1'',
      BridgePort = \<lparr>BP_Name = [],
        BP_Spec = \<lparr>Ptype = ACCESS, LogicalBridges = [''bridges/a'']\<rparr>\<rparr>\<rparr> = None \<and>
   validateCreateBridgePortRequest sample_Deps
     \<lparr>BridgePortId = ''port1'',
      BridgePort = \<lparr>BP_Name = [],
        BP_Spec = \<lparr>Ptype = ACCESS, LogicalBridges = [''bridges/a'']\<rparr>\<rparr>\<rparr> = None"
  using C9_access_port_cardinality
    [where d = sample_Deps and preq =
       "\<lparr>BridgePortId = ''port1'',
         BridgePort = \<lparr>BP_Name = [],
           BP_Spec = \<lparr>Ptype = ACCESS, LogicalBridges = [''bridges/a'', ''bridges/b'']\<rparr>\<rparr>\<rparr>"]
    C9_access_port_cardinality
    [where d = sample_Deps and preq =
       "\<lparr>BridgePortId = ''port1'',
         BridgePort = \<lparr>BP_Name = [],
           BP_Spec = \<lparr>Ptype = ACCESS, LogicalBridges = [''bridges/a'']\<rparr>\<rparr>\<rparr>"]
  by (simp add: sample_Deps_def fmt_d_2 validateCreateBridgePortRequest_def Let_def)

subsection \<open>List\<close>

lemma ListVrfs_items:
  assumes "fst (ListVrfs d tok lreq s) = Inr resp"
  shows "set (Vrfs_out resp) \<subseteq>
           (\<lambda>(k, vrf). vrf\<lparr>Status := Some \<lparr>LocalAs = 4, RoutingTable = 0, Rmac = []\<rparr>\<rparr>) ` set (Vrfs s)"
proof -
  let ?B = "map (\<lambda>(k, vrf). vrf\<lparr>Status := Some \<lparr>LocalAs = 4, RoutingTable = 0, Rmac = []\<rparr>\<rparr>) (Vrfs s)"
  from assms obtain sz offset hm where
    "limitPagination (sortVrfs ?B) offset sz = Some (Vrfs_out resp, hm)"
    by (auto simp: ListVrfs_def Let_def split: prod.splits sum.splits option.splits if_splits)
  then have "set (Vrfs_out resp) \<subseteq> set (sortVrfs ?B)"
    by (rule limitPagination_subset)
  then show ?thesis by (simp add: sortVrfs_def)
qed

lemma ListLogicalBridges_items:
  assumes "fst (ListLogicalBridges d tok lbreq s) = Inr bresp"
  shows "set (LogicalBridges_out bresp) \<subseteq>
           (\<lambda>(k, bridge). bridge\<lparr>LB_Status := Some \<lparr>OperStatus = LB_OPER_STATUS_UP\<rparr>\<rparr>) ` set (Bridges s)"
proof -
  let ?B = "map (\<lambda>(k, bridge). bridge\<lparr>LB_Status := Some \<lparr>OperStatus = LB_OPER_STATUS_UP\<rparr>\<rparr>) (Bridges s)"
  from assms obtain sz offset hm where
    "limitPagination (sortLogicalBridges ?B) offset sz = Some (LogicalBridges_out bresp, hm)"
    by (auto simp: ListLogicalBridges_def Let_def split: prod.splits sum.splits option.splits if_splits)
  then have "set (LogicalBridges_out bresp) \<subseteq> set (sortLogicalBridges ?B)"
    by (rule limitPagination_subset)
  then show ?thesis by (simp add: sortLogicalBridges_def)
qed

lemma ListVrfs_stores:
  "Vrfs (snd (ListVrfs d tok lreq s)) = Vrfs s \<and> Bridges (snd (ListVrfs d tok lreq s)) = Bridges s \<and>
   World (snd (ListVrfs d tok lreq s)) = World s \<and> Calls (snd (ListVrfs d tok lreq s)) = Calls s"
  by (auto simp: ListVrfs_def Let_def split: prod.splits sum.splits option.splits)

lemma ListLogicalBridges_stores:
  "Vrfs (snd (ListLogicalBridges d tok lbreq s)) = Vrfs s \<and>
   Bridges (snd (ListLogicalBridges d tok lbreq s)) = Bridges s \<and>
   World (snd (ListLogicalBridges d tok lbreq s)) = World s \<and>
   Calls (snd (ListLogicalBridges d tok lbreq s)) = Calls s"
  by (auto simp: ListLogicalBridges_def Let_def split: prod.splits sum.splits option.splits)

text \<open>
  Claim C10. Every item of a successful \<open>ListVrfs\<close> is a stored VRF (its name and spec
  as stored) with the status replaced by the fixed \<open>{LocalAs: 4}\<close>, whose routing table
  is 0 and whose rmac is empty, whatever status is stored; every item of a successful
  \<open>ListLogicalBridges\<close> is a stored bridge with the status replaced by
  \<open>{OperStatus: UP}\<close>. Neither call changes the VRF store or the bridge store.
\<close>

theorem C10_list_items_carry_fixed_status:
  "(fst (ListVrfs d tok lreq s) = Inr resp \<longrightarrow>
      set (Vrfs_out resp) \<subseteq>
        (\<lambda>(k, vrf). vrf\<lparr>Status := Some \<lparr>LocalAs = 4, RoutingTable = 0, Rmac = []\<rparr>\<rparr>) ` set (Vrfs s)) \<and>
   Vrfs (snd (ListVrfs d tok lreq s)) = Vrfs s \<and>
   Bridges (snd (ListVrfs d tok lreq s)) = Bridges s \<and>
   (fst (ListLogicalBridges d tok lbreq s) = Inr bresp \<longrightarrow>
      set (LogicalBridges_out bresp) \<subseteq>
        (\<lambda>(k, bridge). bridge\<lparr>LB_Status := Some \<lparr>OperStatus = LB_OPER_STATUS_UP\<rparr>\<rparr>) `
          set (Bridges s)) \<and>
   Vrfs (snd (ListLogicalBridges d tok lbreq s)) = Vrfs s \<and>
   Bridges (snd (ListLogicalBridges d tok lbreq s)) = Bridges s"
  using ListVrfs_items [of d tok lreq s resp] ListLogicalBridges_items [of d tok lbreq s bresp]
    ListVrfs_stores [of d tok lreq s] ListLogicalBridges_stores [of d tok lbreq s]
  by blast

theorem C10_list_items_carry_fixed_status_witness:
  "fst (ListVrfs sample_Deps ''0f14d0ab'' \<lparr>LVR_PageSize = 0, LVR_PageToken = []\<rparr> srv_one)
     = Inr \<lparr>Vrfs_out = [\<lparr>Name = ''vrfs/blue'', Spec = \<lparr>Vni = Some 12\<rparr>,
                         Status = Some \<lparr>LocalAs = 4, RoutingTable = 0, Rmac = []\<rparr>\<rparr>],
            LVR_NextPageToken = []\<rparr> \<and>
   map_of (Vrfs srv_one) ''vrfs/blue''
     = Some \<lparr>Name = ''vrfs/blue'', Spec = \<lparr>Vni = Some 12\<rparr>,
             Status = Some \<lparr>LocalAs = 4, RoutingTable = 1003, Rmac = sample_mac\<rparr>\<rparr> \<and>
   Vrfs (snd (ListVrfs sample_Deps ''0f14d0ab'' \<lparr>LVR_PageSize = 0, LVR_PageToken = []\<rparr> srv_one))
     = Vrfs srv_one \<and>
   fst (ListLogicalBridges sample_Deps ''0f14d0ab''
          \<lparr>LLB_PageSize = 0, LLB_PageToken = []\<rparr> srv_one)
     = Inr \<lparr>LogicalBridges_out = [bridge_br1], LLB_NextPageToken = []\<rparr> \<and>
   Bridges (snd (ListLogicalBridges sample_Deps ''0f14d0ab''
          \<lparr>LLB_PageSize = 0, LLB_PageToken = []\<rparr> srv_one))
     = Bridges srv_one"
  using C10_list_items_carry_fixed_status
    [where d = sample_Deps and tok = "''0f14d0ab''" and s = srv_one
       and lreq = "\<lparr>LVR_PageSize = 0, LVR_PageToken = []\<rparr>"
       and lbreq = "\<lparr>LLB_PageSize = 0, LLB_PageToken = []\<rparr>"
       and resp = "\<lparr>Vrfs_out = [\<lparr>Name = ''vrfs/blue'', Spec = \<lparr>Vni = Some 12\<rparr>,
                         Status = Some \<lparr>LocalAs = 4, RoutingTable = 0, Rmac = []\<rparr>\<rparr>],
            LVR_NextPageToken = []\<rparr>"
       and bresp = "\<lparr>LogicalBridges_out = [bridge_br1], LLB_NextPageToken = []\<rparr>"]
  by (simp add: ListVrfs_def ListLogicalBridges_def Let_def sample_Deps_def srv_one_def
        extractPagination_spec_def limitPagination_def sortVrfs_def sortLogicalBridges_def
        vrf_blue_def bridge_br1_def)

subsection \<open>Pagination\<close>

lemma limitPagination_in_range:
  assumes "0 \<le> offset" and "offset \<le> int (length xs)" and "0 \<le> sz"
  shows "limitPagination xs offset sz =
           Some (take (nat sz) (drop (nat offset) xs), offset + sz < int (length xs))"
proof (cases "offset + sz < int (length xs)")
  case True
  with assms show ?thesis by (simp add: limitPagination_def Let_def)
next
  case False
  with assms have "length (drop (nat offset) xs) \<le> nat sz"
    and "length (drop (nat offset) xs) \<le> nat (int (length xs) - offset)" by auto
  then have "take (nat sz) (drop (nat offset) xs) = drop (nat offset) xs"
    and "take (nat (int (length xs) - offset)) (drop (nat offset) xs) = drop (nat offset) xs"
    by (simp_all only: take_all)
  with False assms show ?thesis by (simp add: limitPagination_def Let_def)
qed

lemma sort_key_strict:
  assumes "distinct (map f xs)"
  shows "sorted_wrt (\<lambda>a b. f a < f b) (sort_key f xs)"
proof -
  have "mset (map f (sort_key f xs)) = mset (map f xs)" by simp
  then have "distinct (map f (sort_key f xs))"
    using assms mset_eq_imp_distinct_iff by blast
  moreover have "sorted (map f (sort_key f xs))" by (rule sorted_sort_key)
  ultimately have "sorted_wrt (<) (map f (sort_key f xs))"
    by (simp add: strict_sorted_iff)
  then show ?thesis by (simp add: sorted_wrt_map)
qed

text \<open>
  \<open>sort.Slice\<close> is not a stable sort, \<open>sort_key\<close> is. Where the names are distinct
  there is one sorted arrangement, so any sorting procedure returns what \<open>sort_key\<close>
  returns.
\<close>

lemma sorted_arrangement_unique:
  assumes "distinct (map f xs)" and "mset ys = mset xs" and "sorted (map f ys)"
  shows "sort_key f xs = ys"
proof (rule properties_for_sort_key [OF assms(2) _ assms(3)])
  fix k assume "k \<in> set ys"
  have dy: "distinct (map f ys)"
    using assms(1,2) by (metis mset_eq_imp_distinct_iff mset_map)
  have "k \<in> set xs" using \<open>k \<in> set ys\<close> assms(2) by (metis set_mset_mset)
  have "filter (\<lambda>x. f k = f x) zs = [k]" if "distinct (map f zs)" "k \<in> set zs" for zs
    using that
  proof (induction zs)
    case Nil then show ?case by simp
  next
    case (Cons z zs)
    then show ?case
      by (cases "z = k") (auto simp: filter_empty_conv image_iff)
  qed
  with dy assms(1) \<open>k \<in> set ys\<close> \<open>k \<in> set xs\<close>
  show "filter (\<lambda>x. f k = f x) ys = filter (\<lambda>x. f k = f x) xs" by simp
qed

lemma sort_key_order_independent:
  assumes "distinct (map f xs)" and "mset ys = mset xs"
  shows "sort_key f ys = sort_key f xs"
proof -
  have "mset (sort_key f ys) = mset xs" using assms(2) by simp
  moreover have "sorted (map f (sort_key f ys))" by (rule sorted_sort_key)
  ultimately show ?thesis using sorted_arrangement_unique [OF assms(1)] by metis
qed

lemma store_names:
  assumes "store_ok f al" and "\<And>v. f (g v) = f v"
  shows "map f (map (\<lambda>(k, v). g v) al) = map fst al"
  using assms(1) by (auto simp: store_ok_def list_all_iff assms(2))

lemma ListVrfs_page:
  assumes "ValidateRequiredFields_ListVrfs d lreq = None"
    and "extractPagination d (LVR_PageSize lreq) (LVR_PageToken lreq) (Pagination s) = Inr (sz, offset)"
    and "0 \<le> offset" and "offset \<le> int (length (Vrfs s))" and "0 \<le> sz"
  shows "ListVrfs d tok lreq s =
           (Inr \<lparr>Vrfs_out = take (nat sz) (drop (nat offset)
                   (sortVrfs (map (\<lambda>(k, vrf). vrf\<lparr>Status :=
                      Some \<lparr>LocalAs = 4, RoutingTable = 0, Rmac = []\<rparr>\<rparr>) (Vrfs s)))),
                 LVR_NextPageToken = (if offset + sz < int (length (Vrfs s)) then tok else [])\<rparr>,
            if offset + sz < int (length (Vrfs s))
            then s\<lparr>Pagination := (Pagination s)(tok \<mapsto> offset + sz)\<rparr> else s)"
proof -
  let ?S = "sortVrfs (map (\<lambda>(k, vrf). vrf\<lparr>Status :=
              Some \<lparr>LocalAs = 4, RoutingTable = 0, Rmac = []\<rparr>\<rparr>) (Vrfs s))"
  have len: "length ?S = length (Vrfs s)" by (simp add: sortVrfs_def)
  have "limitPagination ?S offset sz =
          Some (take (nat sz) (drop (nat offset) ?S), offset + sz < int (length (Vrfs s)))"
    using limitPagination_in_range [of offset ?S sz] assms(3-5) by (simp only: len)
  then show ?thesis
    using assms(1,2) by (simp add: ListVrfs_def Let_def)
qed

lemma ListLogicalBridges_page:
  assumes "ValidateRequiredFields_ListBridges d lbreq = None"
    and "extractPagination d (LLB_PageSize lbreq) (LLB_PageToken lbreq) (Pagination s)
           = Inr (sz, offset)"
    and "0 \<le> offset" and "offset \<le> int (length (Bridges s))" and "0 \<le> sz"
  shows "ListLogicalBridges d tok lbreq s =
           (Inr \<lparr>LogicalBridges_out = take (nat sz) (drop (nat offset)
                   (sortLogicalBridges (map (\<lambda>(k, bridge). bridge\<lparr>LB_Status :=
                      Some \<lparr>OperStatus = LB_OPER_STATUS_UP\<rparr>\<rparr>) (Bridges s)))),
                 LLB_NextPageToken = (if offset + sz < int (length (Bridges s)) then tok else [])\<rparr>,
            if offset + sz < int (length (Bridges s))
            then s\<lparr>Pagination := (Pagination s)(tok \<mapsto> offset + sz)\<rparr> else s)"
proof -
  let ?S = "sortLogicalBridges (map (\<lambda>(k, bridge). bridge\<lparr>LB_Status :=
              Some \<lparr>OperStatus = LB_OPER_STATUS_UP\<rparr>\<rparr>) (Bridges s))"
  have len: "length ?S = length (Bridges s)" by (simp add: sortLogicalBridges_def)
  have "limitPagination ?S offset sz =
          Some (take (nat sz) (drop (nat offset) ?S), offset + sz < int (length (Bridges s)))"
    using limitPagination_in_range [of offset ?S sz] assms(3-5) by (simp only: len)
  then show ?thesis
    using assms(1,2) by (simp add: ListLogicalBridges_def Let_def)
qed

lemma sortVrfs_snapshot:
  assumes "store_ok Name (Vrfs s)"
  shows "sorted_wrt (\<lambda>a b. Name a < Name b)
           (sortVrfs (map (\<lambda>(k, vrf). vrf\<lparr>Status :=
              Some \<lparr>LocalAs = 4, RoutingTable = 0, Rmac = []\<rparr>\<rparr>) (Vrfs s)))"
proof -
  have "map Name (map (\<lambda>(k, vrf). vrf\<lparr>Status :=
          Some \<lparr>LocalAs = 4, RoutingTable = 0, Rmac = []\<rparr>\<rparr>) (Vrfs s)) = map fst (Vrfs s)"
    using store_names [OF assms, of "\<lambda>vrf. vrf\<lparr>Status :=
          Some \<lparr>LocalAs = 4, RoutingTable = 0, Rmac = []\<rparr>\<rparr>"] by simp
  moreover have "distinct (map fst (Vrfs s))" using assms by (simp add: store_ok_def)
  ultimately have "distinct (map Name (map (\<lambda>(k, vrf). vrf\<lparr>Status :=
          Some \<lparr>LocalAs = 4, RoutingTable = 0, Rmac = []\<rparr>\<rparr>) (Vrfs s)))"
    by (simp only:)
  then show ?thesis unfolding sortVrfs_def by (rule sort_key_strict)
qed

lemma sortLogicalBridges_snapshot:
  assumes "store_ok LB_Name (Bridges s)"
  shows "sorted_wrt (\<lambda>a b. LB_Name a < LB_Name b)
           (sortLogicalBridges (map (\<lambda>(k, bridge). bridge\<lparr>LB_Status :=
              Some \<lparr>OperStatus = LB_OPER_STATUS_UP\<rparr>\<rparr>) (Bridges s)))"
proof -
  have "map LB_Name (map (\<lambda>(k, bridge). bridge\<lparr>LB_Status :=
          Some \<lparr>OperStatus = LB_OPER_STATUS_UP\<rparr>\<rparr>) (Bridges s)) = map fst (Bridges s)"
    using store_names [OF assms, of "\<lambda>bridge. bridge\<lparr>LB_Status :=
          Some \<lparr>OperStatus = LB_OPER_STATUS_UP\<rparr>\<rparr>"] by simp
  moreover have "distinct (map fst (Bridges s))" using assms by (simp add: store_ok_def)
  ultimately have "distinct (map LB_Name (map (\<lambda>(k, bridge). bridge\<lparr>LB_Status :=
          Some \<lparr>OperStatus = LB_OPER_STATUS_UP\<rparr>\<rparr>) (Bridges s)))"
    by (simp only:)
  then show ?thesis unfolding sortLogicalBridges_def by (rule sort_key_strict)
qed

text \<open>
Claim C5. A List call (the request having passed validation) whose pagination
  resolves to a size \<open>sz \<ge> 0\<close> and an offset within the snapshot, on a store that holds
  every object under its own name: the response is the slice \<open>[offset, offset + sz)\<close> of
  the snapshot (the stored objects, each with the fixed status of List) sorted by
  name, and the sorted snapshot is a rearrangement of the snapshot that is strictly
  increasing in the names, in the byte-wise lexicographic order of Go strings. If
  elements remain beyond the slice (\<open>offset + sz\<close> is less than the number of stored
  objects), the returned token is the newly drawn, non-empty UUID and the pagination
  table maps it to \<open>offset + sz\<close>; otherwise the returned token is empty and the
  pagination table is unchanged.
\<close>

theorem C5_list_returns_sorted_slice:
  "(ValidateRequiredFields_ListVrfs d lreq = None \<and>
    extractPagination d (LVR_PageSize lreq) (LVR_PageToken lreq) (Pagination s) = Inr (sz, offset) \<and>
    0 \<le> offset \<and> offset \<le> int (length (Vrfs s)) \<and> 0 \<le> sz \<and>
    store_ok Name (Vrfs s) \<and> tok \<noteq> [] \<longrightarrow>
      fst (ListVrfs d tok lreq s) =
        Inr \<lparr>Vrfs_out = take (nat sz) (drop (nat offset)
                (sortVrfs (map (\<lambda>(k, vrf). vrf\<lparr>Status :=
                   Some \<lparr>LocalAs = 4, RoutingTable = 0, Rmac = []\<rparr>\<rparr>) (Vrfs s)))),
              LVR_NextPageToken = (if offset + sz < int (length (Vrfs s)) then tok else [])\<rparr> \<and>
      Pagination (snd (ListVrfs d tok lreq s)) =
        (if offset + sz < int (length (Vrfs s))
         then (Pagination s)(tok \<mapsto> offset + sz) else Pagination s) \<and>
      sorted_wrt (\<lambda>a b. Name a < Name b)
        (sortVrfs (map (\<lambda>(k, vrf). vrf\<lparr>Status :=
           Some \<lparr>LocalAs = 4, RoutingTable = 0, Rmac = []\<rparr>\<rparr>) (Vrfs s))) \<and>
      mset (sortVrfs (map (\<lambda>(k, vrf). vrf\<lparr>Status :=
           Some \<lparr>LocalAs = 4, RoutingTable = 0, Rmac = []\<rparr>\<rparr>) (Vrfs s)))
        = mset (map (\<lambda>(k, vrf). vrf\<lparr>Status :=
           Some \<lparr>LocalAs = 4, RoutingTable = 0, Rmac = []\<rparr>\<rparr>) (Vrfs s))) \<and>
   (ValidateRequiredFields_ListBridges d lbreq = None \<and>
    extractPagination d (LLB_PageSize lbreq) (LLB_PageToken lbreq) (Pagination s)
      = Inr (bsz, boffset) \<and>
    0 \<le> boffset \<and> boffset \<le> int (length (Bridges s)) \<and> 0 \<le> bsz \<and>
    store_ok LB_Name (Bridges s) \<and> tok \<noteq> [] \<longrightarrow>
      fst (ListLogicalBridges d tok lbreq s) =
        Inr \<lparr>LogicalBridges_out = take (nat bsz) (drop (nat boffset)
                (sortLogicalBridges (map (\<lambda>(k, bridge). bridge\<lparr>LB_Status :=
                   Some \<lparr>OperStatus = LB_OPER_STATUS_UP\<rparr>\<rparr>) (Bridges s)))),
              LLB_NextPageToken =
                (if boffset + bsz < int (length (Bridges s)) then tok else [])\<rparr> \<and>
      Pagination (snd (ListLogicalBridges d tok lbreq s)) =
        (if boffset + bsz < int (length (Bridges s))
         then (Pagination s)(tok \<mapsto> boffset + bsz) else Pagination s) \<and>
      sorted_wrt (\<lambda>a b. LB_Name a < LB_Name b)
        (sortLogicalBridges (map (\<lambda>(k, bridge). bridge\<lparr>LB_Status :=
           Some \<lparr>OperStatus = LB_OPER_STATUS_UP\<rparr>\<rparr>) (Bridges s))) \<and>
      mset (sortLogicalBridges (map (\<lambda>(k, bridge). bridge\<lparr>LB_Status :=
           Some \<lparr>OperStatus = LB_OPER_STATUS_UP\<rparr>\<rparr>) (Bridges s)))
        = mset (map (\<lambda>(k, bridge). bridge\<lparr>LB_Status :=
           Some \<lparr>OperStatus = LB_OPER_STATUS_UP\<rparr>\<rparr>) (Bridges s)))"
  by (simp add: ListVrfs_page ListLogicalBridges_page sortVrfs_snapshot
        sortLogicalBridges_snapshot)
     (simp add: sortVrfs_def sortLogicalBridges_def)

theorem C5_list_returns_sorted_slice_witness:
  "ValidateRequiredFields_ListVrfs sample_Deps \<lparr>LVR_PageSize = 0, LVR_PageToken = []\<rparr> = None \<and>
   extractPagination sample_Deps 0 [] (Pagination srv_five) = Inr (50, 0) \<and>
   store_ok Name (Vrfs srv_five) \<and>
   fst (ListVrfs sample_Deps ''token-2'' \<lparr>LVR_PageSize = 0, LVR_PageToken = []\<rparr> srv_five)
     = Inr \<lparr>Vrfs_out = [\<lparr>Name = ''vrfs/blue'', Spec = \<lparr>Vni = Some 12\<rparr>,
                         Status = Some \<lparr>LocalAs = 4, RoutingTable = 0, Rmac = []\<rparr>\<rparr>],
            LVR_NextPageToken = []\<rparr> \<and>
   Pagination (snd (ListVrfs sample_Deps ''token-2''
       \<lparr>LVR_PageSize = 0, LVR_PageToken = []\<rparr> srv_five)) = Pagination srv_five \<and>
   ValidateRequiredFields_ListBridges sample_Deps
     \<lparr>LLB_PageSize = 2, LLB_PageToken = ''token-1''\<rparr> = None \<and>
   extractPagination sample_Deps 2 ''token-1'' (Pagination srv_five) = Inr (2, 2) \<and>
   store_ok LB_Name (Bridges srv_five) \<and>
   fst (ListLogicalBridges sample_Deps ''token-2''
          \<lparr>LLB_PageSize = 2, LLB_PageToken = ''token-1''\<rparr> srv_five)
     = Inr \<lparr>LogicalBridges_out = [sample_bridge ''c'', sample_bridge ''d''],
            LLB_NextPageToken = ''token-2''\<rparr> \<and>
   Pagination (snd (ListLogicalBridges sample_Deps ''token-2''
          \<lparr>LLB_PageSize = 2, LLB_PageToken = ''token-1''\<rparr> srv_five))
     = [''token-1'' \<mapsto> 2, ''token-2'' \<mapsto> 4]"
  using C5_list_returns_sorted_slice
    [where d = sample_Deps and s = srv_five and tok = "''token-2''"
       and lreq = "\<lparr>LVR_PageSize = 0, LVR_PageToken = []\<rparr>" and sz = 50 and offset = 0
       and lbreq = "\<lparr>LLB_PageSize = 2, LLB_PageToken = ''token-1''\<rparr>"
       and bsz = 2 and boffset = 2]
  by (simp add: sample_Deps_def srv_five_def extractPagination_spec_def store_ok_def
        sortVrfs_def sortLogicalBridges_def vrf_blue_def sample_bridge_def)

subsection \<open>The handlers keep the store invariant\<close>

lemma CreateVrf_store_ok:
  assumes "store_ok Name (Vrfs s)"
  shows "store_ok Name (Vrfs (snd (CreateVrf d g m creq s)))"
  using assms
  by (auto simp: CreateVrf_def backend_def Let_def intro!: store_ok_update
           split: prod.splits sum.splits option.splits)

lemma UpdateVrf_store_ok:
  assumes "store_ok Name (Vrfs s)"
  shows "store_ok Name (Vrfs (snd (UpdateVrf d req s)))"
  using assms
  by (auto simp: UpdateVrf_def backend_def Let_def intro!: store_ok_update
           split: prod.splits sum.splits option.splits)

lemma DeleteVrf_store_ok:
  assumes "store_ok Name (Vrfs s)"
  shows "store_ok Name (Vrfs (snd (DeleteVrf d req s)))"
  using assms
  by (auto simp: DeleteVrf_def backend_def Let_def intro!: store_ok_delete
           split: prod.splits sum.splits option.splits)

lemma CreateLogicalBridge_store_ok:
  assumes "store_ok LB_Name (Bridges s)"
  shows "store_ok LB_Name (Bridges (snd (CreateLogicalBridge d g breq s)))"
  using assms
  by (auto simp: CreateLogicalBridge_def backend_def Let_def intro!: store_ok_update
           split: prod.splits sum.splits option.splits)

lemma UpdateLogicalBridge_store_ok:
  assumes "store_ok LB_Name (Bridges s)"
  shows "store_ok LB_Name (Bridges (snd (UpdateLogicalBridge d breq s)))"
  using assms
  by (auto simp: UpdateLogicalBridge_def backend_def Let_def intro!: store_ok_update
           split: prod.splits sum.splits option.splits)

lemma DeleteLogicalBridge_store_ok:
  assumes "store_ok LB_Name (Bridges s)"
  shows "store_ok LB_Name (Bridges (snd (DeleteLogicalBridge d breq s)))"
  using assms
  by (auto simp: DeleteLogicalBridge_def backend_def Let_def intro!: store_ok_delete
           split: prod.splits sum.splits option.splits)

lemma srv_empty_store_ok: "store_ok Name (Vrfs srv_empty) \<and> store_ok LB_Name (Bridges srv_empty)"
  by (simp add: srv_empty_def store_ok_def)

end
